theory Spec2Isabelle
  imports Complex_Main "HOL-Library.AList"
begin

section \<open>Values shared by the main-process modules\<close>

text \<open>
  JavaScript values that \<^verbatim>\<open>JSON.parse\<close> can produce. An object is an association list in
  property order; a property that is absent (\<^verbatim>\<open>undefined\<close>) has no entry. Numbers are
  rationals: the non-finite doubles, which JSON cannot write, are outside the model.
\<close>

datatype json =
    JNull
  | JBool bool
  | JNum rat
  | JStr string
  | JArr "json list"
  | JObj "(string \<times> json) list"

text \<open>Exceptions of the host. \<^verbatim>\<open>String(e)\<close> is the text the handlers put in an error response.\<close>

datatype exn =
    Error string
  | TypeError string
  | SyntaxError string
  | ZodError string
  | SqliteError string

fun String_of :: "exn \<Rightarrow> string" where
  "String_of (Error m) = ''Error: '' @ m"
| "String_of (TypeError m) = ''TypeError: '' @ m"
| "String_of (SyntaxError m) = ''SyntaxError: '' @ m"
| "String_of (ZodError m) = ''ZodError: '' @ m"
| "String_of (SqliteError m) = ''SqliteError: '' @ m"

text \<open>The generic IPC response wrapper of \<^verbatim>\<open>ipc.types.ts\<close> and the two helpers every handler file repeats.\<close>

datatype 'a IpcResponse = IpcSuccess 'a | IpcError string

definition ok :: "'a \<Rightarrow> 'a IpcResponse" where
  "ok d = IpcSuccess d"

definition err :: "string \<Rightarrow> 'a IpcResponse" where
  "err e = IpcError e"

definition startsWith :: "string \<Rightarrow> string \<Rightarrow> bool" where
  "startsWith s p = (take (length p) s = p)"

section \<open>The database (\<^verbatim>\<open>storage/db.ts\<close>)\<close>

text \<open>
  One row type per table of migration 1. The columns that hold JSON text are modelled by the
  value the text denotes. \<^verbatim>\<open>write_fault\<close> is the state of the storage medium: when set,
  every statement that writes throws that exception.
\<close>

record AgentRow =
  id_col :: string
  version_col :: rat
  name_col :: string
  description_col :: string
  provider_col :: json
  system_prompt :: string
  graph_col :: json
  code_blocks :: json
  permissions_col :: json
  tags_col :: json
  audit_enabled :: int
  created_at :: string
  updated_at :: string

record audit_row =
  audit_id :: nat
  ts :: string
  agent_id :: string
  run_id :: string
  event_type :: string
  tool_col :: "string option"
  payload_col :: "string option"
  outcome_col :: string
  error_col :: "string option"

record database =
  agents :: "AgentRow list"
  settings :: "string \<rightharpoonup> string"
  audit_log :: "audit_row list"
  audit_seq :: nat
  write_fault :: "exn option"

text \<open>The module variable \<^verbatim>\<open>db\<close> is \<^verbatim>\<open>null\<close> until \<^verbatim>\<open>initDb\<close> and after \<^verbatim>\<open>closeDb\<close>.\<close>

definition getDb :: "database option \<Rightarrow> exn + database" where
  "getDb db = (case db of
      None \<Rightarrow> Inl (Error ''Database not initialized. Call initDb() first.'')
    | Some d \<Rightarrow> Inr d)"

definition closeDb :: "database option \<Rightarrow> database option" where
  "closeDb db = None"

section \<open>Settings and secrets (\<^verbatim>\<open>storage/settings.repo.ts\<close>, \<^verbatim>\<open>ipc/settings.ipc.ts\<close>)\<close>

text \<open>
  Electron's \<^verbatim>\<open>safeStorage\<close> is a collaborator. \<^verbatim>\<open>encryptString\<close> stands for
  \<^verbatim>\<open>safeStorage.encryptString(value).toString('base64')\<close> and \<^verbatim>\<open>decryptString\<close> for
  \<^verbatim>\<open>safeStorage.decryptString(Buffer.from(stored, 'base64'))\<close>, \<^verbatim>\<open>None\<close> when that throws.
\<close>

record safeStorage =
  isEncryptionAvailable :: bool
  encryptString :: "string \<Rightarrow> string"
  decryptString :: "string \<Rightarrow> string option"

definition SECRET_PREFIX :: string where
  "SECRET_PREFIX = ''secret:''"

definition dbGet :: "database option \<Rightarrow> string \<Rightarrow> exn + string option" where
  "dbGet db key = (case getDb db of
      Inl e \<Rightarrow> Inl e
    | Inr d \<Rightarrow> Inr (settings d key))"

definition dbSet :: "database option \<Rightarrow> string \<Rightarrow> string \<Rightarrow> exn + database option" where
  "dbSet db key v = (case getDb db of
      Inl e \<Rightarrow> Inl e
    | Inr d \<Rightarrow> (case write_fault d of
        Some e \<Rightarrow> Inl e
      | None \<Rightarrow> Inr (Some (d\<lparr>settings := (settings d)(key \<mapsto> v)\<rparr>))))"

definition dbDelete :: "database option \<Rightarrow> string \<Rightarrow> exn + database option" where
  "dbDelete db key = (case getDb db of
      Inl e \<Rightarrow> Inl e
    | Inr d \<Rightarrow> (case write_fault d of
        Some e \<Rightarrow> Inl e
      | None \<Rightarrow> Inr (Some (d\<lparr>settings := (settings d)(key := None)\<rparr>))))"

definition setSecret :: "safeStorage \<Rightarrow> database option \<Rightarrow> string \<Rightarrow> string \<Rightarrow> exn + database option" where
  "setSecret ss db key v =
     (if \<not> isEncryptionAvailable ss then dbSet db (SECRET_PREFIX @ key) (''PLAIN:'' @ v)
      else dbSet db (SECRET_PREFIX @ key) (encryptString ss v))"

text \<open>\<^verbatim>\<open>!stored\<close> holds for \<^verbatim>\<open>null\<close> and for the empty string.\<close>

definition getSecret :: "safeStorage \<Rightarrow> database option \<Rightarrow> string \<Rightarrow> exn + string option" where
  "getSecret ss db key = (case dbGet db (SECRET_PREFIX @ key) of
      Inl e \<Rightarrow> Inl e
    | Inr None \<Rightarrow> Inr None
    | Inr (Some stored) \<Rightarrow>
        if stored = [] then Inr None
        else if startsWith stored ''PLAIN:'' then Inr (Some (drop 6 stored))
        else if \<not> isEncryptionAvailable ss then Inr None
        else (case decryptString ss stored of
            Some v \<Rightarrow> Inr (Some v)
          | None \<Rightarrow> Inr None))"

definition deleteSecret :: "database option \<Rightarrow> string \<Rightarrow> exn + database option" where
  "deleteSecret db key = dbDelete db (SECRET_PREFIX @ key)"

text \<open>The payload of the \<^verbatim>\<open>SETTINGS_GET_SECRET\<close> response: \<^verbatim>\<open>{ exists: value !== null }\<close>.\<close>

record secret_exists =
  exists :: bool

definition SETTINGS_GET_SECRET ::
  "safeStorage \<Rightarrow> database option \<Rightarrow> string \<Rightarrow> secret_exists IpcResponse" where
  "SETTINGS_GET_SECRET ss db key = (case getSecret ss db key of
      Inl e \<Rightarrow> err (String_of e)
    | Inr v \<Rightarrow> ok \<lparr>exists = (v \<noteq> None)\<rparr>)"

section \<open>The audit log (\<^verbatim>\<open>storage/audit.repo.ts\<close>)\<close>

text \<open>
  \<^verbatim>\<open>JSON.stringify\<close> without indentation. The decimal text of a number is the parameter
  \<^verbatim>\<open>ns\<close>. Characters are bytes, so the model is exact on ASCII text.
\<close>

definition hex_digit :: "nat \<Rightarrow> char" where
  "hex_digit n = (''0123456789abcdef'' ! (n mod 16))"

definition quote_char :: "char \<Rightarrow> string" where
  "quote_char c =
     (if c = CHR 0x22 then [CHR 0x5C, CHR 0x22]
      else if c = CHR 0x5C then [CHR 0x5C, CHR 0x5C]
      else if c = CHR 0x08 then [CHR 0x5C, CHR ''b'']
      else if c = CHR 0x0C then [CHR 0x5C, CHR ''f'']
      else if c = CHR 0x0A then [CHR 0x5C, CHR ''n'']
      else if c = CHR 0x0D then [CHR 0x5C, CHR ''r'']
      else if c = CHR 0x09 then [CHR 0x5C, CHR ''t'']
      else if (of_char c :: nat) < 32
        then [CHR 0x5C, CHR ''u'', CHR ''0'', CHR ''0'',
              hex_digit ((of_char c :: nat) div 16), hex_digit (of_char c :: nat)]
      else [c])"

definition quote :: "string \<Rightarrow> string" where
  "quote s = [CHR 0x22] @ concat (map quote_char s) @ [CHR 0x22]"

fun stringify :: "(rat \<Rightarrow> string) \<Rightarrow> json \<Rightarrow> string"
  and stringify_elems :: "(rat \<Rightarrow> string) \<Rightarrow> json list \<Rightarrow> string"
  and stringify_members :: "(rat \<Rightarrow> string) \<Rightarrow> (string \<times> json) list \<Rightarrow> string" where
  "stringify ns JNull = ''null''"
| "stringify ns (JBool b) = (if b then ''true'' else ''false'')"
| "stringify ns (JNum r) = ns r"
| "stringify ns (JStr s) = quote s"
| "stringify ns (JArr xs) = ''['' @ stringify_elems ns xs @ '']''"
| "stringify ns (JObj ms) = ''{'' @ stringify_members ns ms @ ''}''"
| "stringify_elems ns [] = []"
| "stringify_elems ns [x] = stringify ns x"
| "stringify_elems ns (x # y # ys) = stringify ns x @ '','' @ stringify_elems ns (y # ys)"
| "stringify_members ns [] = []"
| "stringify_members ns [(k, v)] = quote k @ '':'' @ stringify ns v"
| "stringify_members ns ((k, v) # m # ms) =
     quote k @ '':'' @ stringify ns v @ '','' @ stringify_members ns (m # ms)"

text \<open>
  A value typed \<^verbatim>\<open>unknown\<close>. On \<^verbatim>\<open>Circular\<close> (a cycle, a BigInt) \<^verbatim>\<open>JSON.stringify\<close>
  throws; on \<^verbatim>\<open>NotJson\<close> (a function, a symbol, \<^verbatim>\<open>undefined\<close>) it returns \<^verbatim>\<open>undefined\<close>.
\<close>

datatype unknown = Serializable json | Circular | NotJson

fun JSON_stringify :: "(rat \<Rightarrow> string) \<Rightarrow> unknown \<Rightarrow> exn + string option" where
  "JSON_stringify ns (Serializable j) = Inr (Some (stringify ns j))"
| "JSON_stringify ns Circular = Inl (TypeError ''Converting circular structure to JSON'')"
| "JSON_stringify ns NotJson = Inr None"

datatype audit_outcome = Outcome_success | Outcome_denied | Outcome_error

fun outcome_text :: "audit_outcome \<Rightarrow> string" where
  "outcome_text Outcome_success = ''success''"
| "outcome_text Outcome_denied = ''denied''"
| "outcome_text Outcome_error = ''error''"

record AuditLogEntry =
  agentId :: string
  runId :: string
  eventType :: string
  tool :: "string option"
  payload :: "unknown option"
  outcome :: audit_outcome
  error :: "string option"

text \<open>
  The serialized payload. Reading \<^verbatim>\<open>.length\<close> of \<^verbatim>\<open>undefined\<close> throws inside the
  \<^verbatim>\<open>try\<close>, so that case ends in the \<^verbatim>\<open>catch\<close> as a throwing \<^verbatim>\<open>JSON.stringify\<close> does.
\<close>

definition payloadStr :: "(rat \<Rightarrow> string) \<Rightarrow> unknown option \<Rightarrow> string option" where
  "payloadStr ns p = (case p of
      None \<Rightarrow> None
    | Some v \<Rightarrow> Some (case JSON_stringify ns v of
          Inl e \<Rightarrow> ''[non-serializable]''
        | Inr None \<Rightarrow> ''[non-serializable]''
        | Inr (Some s) \<Rightarrow> if length s > 10000 then take 10000 s @ ''...[truncated]'' else s))"

text \<open>\<^verbatim>\<open>now\<close> is the clock SQLite reads for the default of the \<^verbatim>\<open>ts\<close> column.\<close>

definition appendAuditLog ::
  "(rat \<Rightarrow> string) \<Rightarrow> string \<Rightarrow> database option \<Rightarrow> AuditLogEntry \<Rightarrow> exn + database option" where
  "appendAuditLog ns now db entry = (case getDb db of
      Inl e \<Rightarrow> Inl e
    | Inr d \<Rightarrow> (case write_fault d of
        Some e \<Rightarrow> Inl e
      | None \<Rightarrow> Inr (Some (d\<lparr>
          audit_log := audit_log d @ [\<lparr>
            audit_id = Suc (audit_seq d),
            ts = now,
            agent_id = agentId entry,
            run_id = runId entry,
            event_type = eventType entry,
            tool_col = tool entry,
            payload_col = payloadStr ns (payload entry),
            outcome_col = outcome_text (outcome entry),
            error_col = error entry\<rparr>],
          audit_seq := Suc (audit_seq d)\<rparr>))))"

definition clearAuditLog :: "database option \<Rightarrow> string option \<Rightarrow> exn + database option" where
  "clearAuditLog db agentId' = (case getDb db of
      Inl e \<Rightarrow> Inl e
    | Inr d \<Rightarrow> (case write_fault d of
        Some e \<Rightarrow> Inl e
      | None \<Rightarrow> (case agentId' of
          Some a \<Rightarrow> if a \<noteq> [] then Inr (Some (d\<lparr>audit_log := filter (\<lambda>r. agent_id r \<noteq> a) (audit_log d)\<rparr>))
                    else Inr (Some (d\<lparr>audit_log := []\<rparr>))
        | None \<Rightarrow> Inr (Some (d\<lparr>audit_log := []\<rparr>)))))"

text \<open>
  \<^verbatim>\<open>pruneAuditLog\<close>: \<^verbatim>\<open>expired\<close> is SQLite's test \<^verbatim>\<open>ts < datetime('now', '-N days')\<close> for the
  retention period passed.
\<close>

definition pruneAuditLog :: "(string \<Rightarrow> bool) \<Rightarrow> database option \<Rightarrow> exn + database option" where
  "pruneAuditLog expired db = (case getDb db of
      Inl e \<Rightarrow> Inl e
    | Inr d \<Rightarrow> (case write_fault d of
        Some e \<Rightarrow> Inl e
      | None \<Rightarrow> Inr (Some (d\<lparr>audit_log := filter (\<lambda>r. \<not> expired (ts r)) (audit_log d)\<rparr>))))"

section \<open>Schemas (\<^verbatim>\<open>shared/schemas\<close>)\<close>

text \<open>
  A zod schema is a function from the input, \<^verbatim>\<open>None\<close> for \<^verbatim>\<open>undefined\<close>, to the parsed
  value, \<^verbatim>\<open>None\<close> when \<^verbatim>\<open>parse\<close> throws a \<^verbatim>\<open>ZodError\<close>. The checks zod makes with
  regular expressions of its own are parameters.
\<close>

record zod =
  uuid :: "string \<Rightarrow> bool"
  datetime :: "string \<Rightarrow> bool"
  url :: "string \<Rightarrow> bool"

definition z_boolean :: "json option \<Rightarrow> bool option" where
  "z_boolean x = (case x of Some (JBool b) \<Rightarrow> Some b | _ \<Rightarrow> None)"

definition z_string :: "json option \<Rightarrow> string option" where
  "z_string x = (case x of Some (JStr s) \<Rightarrow> Some s | _ \<Rightarrow> None)"

definition z_number :: "json option \<Rightarrow> rat option" where
  "z_number x = (case x of Some (JNum r) \<Rightarrow> Some r | _ \<Rightarrow> None)"

definition is_int :: "rat \<Rightarrow> bool" where
  "is_int r = (of_int \<lfloor>r\<rfloor> = r)"

text \<open>\<^verbatim>\<open>z.number().int().positive()\<close>\<close>

definition z_int_positive :: "json option \<Rightarrow> rat option" where
  "z_int_positive x = Option.bind (z_number x) (\<lambda>r. if is_int r \<and> 0 < r then Some r else None)"

text \<open>\<^verbatim>\<open>z.string()\<close> with a check on the text\<close>

definition z_string_where :: "(string \<Rightarrow> bool) \<Rightarrow> json option \<Rightarrow> string option" where
  "z_string_where P x = Option.bind (z_string x) (\<lambda>s. if P s then Some s else None)"

fun parse_all :: "(json option \<Rightarrow> 'a option) \<Rightarrow> json list \<Rightarrow> 'a list option" where
  "parse_all p [] = Some []"
| "parse_all p (j # js) =
     Option.bind (p (Some j)) (\<lambda>a. Option.bind (parse_all p js) (\<lambda>as. Some (a # as)))"

definition z_array :: "(json option \<Rightarrow> 'a option) \<Rightarrow> json option \<Rightarrow> 'a list option" where
  "z_array p x = (case x of Some (JArr js) \<Rightarrow> parse_all p js | _ \<Rightarrow> None)"

fun parse_members :: "(json option \<Rightarrow> 'a option) \<Rightarrow> (string \<times> json) list \<Rightarrow> (string \<times> 'a) list option" where
  "parse_members p [] = Some []"
| "parse_members p ((k, j) # ms) =
     Option.bind (p (Some j)) (\<lambda>a. Option.bind (parse_members p ms) (\<lambda>as. Some ((k, a) # as)))"

definition z_record :: "(json option \<Rightarrow> 'a option) \<Rightarrow> json option \<Rightarrow> (string \<times> 'a) list option" where
  "z_record p x = (case x of Some (JObj ms) \<Rightarrow> parse_members p ms | _ \<Rightarrow> None)"

text \<open>\<^verbatim>\<open>z.record(z.unknown())\<close>\<close>

definition z_record_unknown :: "json option \<Rightarrow> (string \<times> json) list option" where
  "z_record_unknown x = (case x of Some (JObj ms) \<Rightarrow> Some ms | _ \<Rightarrow> None)"

text \<open>\<^verbatim>\<open>.default(d)\<close> parses the default when the input is \<^verbatim>\<open>undefined\<close>; \<^verbatim>\<open>.optional()\<close> passes \<^verbatim>\<open>undefined\<close> on.\<close>

definition z_default :: "json \<Rightarrow> (json option \<Rightarrow> 'a option) \<Rightarrow> json option \<Rightarrow> 'a option" where
  "z_default d p x = p (Some (case x of None \<Rightarrow> d | Some j \<Rightarrow> j))"

definition z_optional :: "(json option \<Rightarrow> 'a option) \<Rightarrow> json option \<Rightarrow> 'a option option" where
  "z_optional p x = (case x of None \<Rightarrow> Some None | Some j \<Rightarrow> map_option Some (p (Some j)))"

text \<open>\<^verbatim>\<open>z.object\<close> reads the properties of its shape and drops the others.\<close>

definition z_object :: "json option \<Rightarrow> (string \<rightharpoonup> json) option" where
  "z_object x = (case x of Some (JObj ms) \<Rightarrow> Some (map_of ms) | _ \<Rightarrow> None)"

text \<open>An optional property is written by \<^verbatim>\<open>JSON.stringify\<close> only when it is defined.\<close>

definition opt_member :: "string \<Rightarrow> ('a \<Rightarrow> json) \<Rightarrow> 'a option \<Rightarrow> (string \<times> json) list" where
  "opt_member k e v = (case v of None \<Rightarrow> [] | Some a \<Rightarrow> [(k, e a)])"

subsection \<open>\<^verbatim>\<open>tool.schema.ts\<close>\<close>

datatype access_mode = Read | ReadWrite

definition z_access :: "json option \<Rightarrow> access_mode option" where
  "z_access x = Option.bind (z_string x)
     (\<lambda>s. if s = ''read'' then Some Read else if s = ''read-write'' then Some ReadWrite else None)"

fun access_text :: "access_mode \<Rightarrow> string" where
  "access_text Read = ''read''"
| "access_text ReadWrite = ''read-write''"

record FileSystemPermission =
  filesystem_enabled :: bool
  access :: access_mode
  allowedPaths :: "string list"
  deniedPaths :: "string list"
  maxFileSizeBytes :: rat

definition FileSystemPermissionSchema :: "json option \<Rightarrow> FileSystemPermission option" where
  "FileSystemPermissionSchema x =
     Option.bind (z_object x) (\<lambda>f.
     Option.bind (z_default (JBool False) z_boolean (f ''enabled'')) (\<lambda>en.
     Option.bind (z_default (JStr ''read'') z_access (f ''access'')) (\<lambda>ac.
     Option.bind (z_default (JArr []) (z_array z_string) (f ''allowedPaths'')) (\<lambda>al.
     Option.bind (z_default (JArr []) (z_array z_string) (f ''deniedPaths'')) (\<lambda>de.
     Option.bind (z_default (JNum (10 * 1024 * 1024)) z_int_positive (f ''maxFileSizeBytes'')) (\<lambda>mx.
     Some \<lparr>filesystem_enabled = en, access = ac, allowedPaths = al, deniedPaths = de,
           maxFileSizeBytes = mx\<rparr>))))))"

definition json_FileSystemPermission :: "FileSystemPermission \<Rightarrow> json" where
  "json_FileSystemPermission p = JObj [
     (''enabled'', JBool (filesystem_enabled p)),
     (''access'', JStr (access_text (access p))),
     (''allowedPaths'', JArr (map JStr (allowedPaths p))),
     (''deniedPaths'', JArr (map JStr (deniedPaths p))),
     (''maxFileSizeBytes'', JNum (maxFileSizeBytes p))]"

datatype http_method = GET | POST | PUT | PATCH | DELETE | HEAD

fun method_text :: "http_method \<Rightarrow> string" where
  "method_text GET = ''GET''"
| "method_text POST = ''POST''"
| "method_text PUT = ''PUT''"
| "method_text PATCH = ''PATCH''"
| "method_text DELETE = ''DELETE''"
| "method_text HEAD = ''HEAD''"

definition z_method :: "json option \<Rightarrow> http_method option" where
  "z_method x = Option.bind (z_string x) (\<lambda>s.
     if s = ''GET'' then Some GET else if s = ''POST'' then Some POST
     else if s = ''PUT'' then Some PUT else if s = ''PATCH'' then Some PATCH
     else if s = ''DELETE'' then Some DELETE else if s = ''HEAD'' then Some HEAD else None)"

record HttpPermission =
  http_enabled :: bool
  allowedDomains :: "string list"
  blockedDomains :: "string list"
  allowedMethods :: "http_method list"
  rateLimitPerMinute :: rat
  http_timeoutMs :: rat
  followRedirects :: bool
  maxResponseBytes :: rat

definition HttpPermissionSchema :: "json option \<Rightarrow> HttpPermission option" where
  "HttpPermissionSchema x =
     Option.bind (z_object x) (\<lambda>f.
     Option.bind (z_default (JBool False) z_boolean (f ''enabled'')) (\<lambda>en.
     Option.bind (z_default (JArr []) (z_array z_string) (f ''allowedDomains'')) (\<lambda>al.
     Option.bind (z_default (JArr []) (z_array z_string) (f ''blockedDomains'')) (\<lambda>bl.
     Option.bind (z_default (JArr [JStr ''GET'']) (z_array z_method) (f ''allowedMethods'')) (\<lambda>me.
     Option.bind (z_default (JNum 30) z_int_positive (f ''rateLimitPerMinute'')) (\<lambda>rl.
     Option.bind (z_default (JNum 10000) z_int_positive (f ''timeoutMs'')) (\<lambda>tm.
     Option.bind (z_default (JBool True) z_boolean (f ''followRedirects'')) (\<lambda>fr.
     Option.bind (z_default (JNum (5 * 1024 * 1024)) z_int_positive (f ''maxResponseBytes'')) (\<lambda>mx.
     Some \<lparr>http_enabled = en, allowedDomains = al, blockedDomains = bl, allowedMethods = me,
           rateLimitPerMinute = rl, http_timeoutMs = tm, followRedirects = fr,
           maxResponseBytes = mx\<rparr>)))))))))"

definition json_HttpPermission :: "HttpPermission \<Rightarrow> json" where
  "json_HttpPermission p = JObj [
     (''enabled'', JBool (http_enabled p)),
     (''allowedDomains'', JArr (map JStr (allowedDomains p))),
     (''blockedDomains'', JArr (map JStr (blockedDomains p))),
     (''allowedMethods'', JArr (map (JStr \<circ> method_text) (allowedMethods p))),
     (''rateLimitPerMinute'', JNum (rateLimitPerMinute p)),
     (''timeoutMs'', JNum (http_timeoutMs p)),
     (''followRedirects'', JBool (followRedirects p)),
     (''maxResponseBytes'', JNum (maxResponseBytes p))]"

definition default_blockedPatterns :: "string list" where
  "default_blockedPatterns =
     [''rm'' @ [CHR 0x5C] @ ''s+-rf'', ''sudo'', ''> /dev'', ''chmod 777'',
      ''curl.*'' @ [CHR 0x5C] @ ''|.*sh'']"

record ShellPermission =
  shell_enabled :: bool
  allowedCommands :: "string list"
  blockedPatterns :: "string list"
  workingDirectory :: "string option"
  shell_timeoutMs :: rat
  requiresConfirmation :: bool
  env :: "(string \<times> string) list"

definition ShellPermissionSchema :: "json option \<Rightarrow> ShellPermission option" where
  "ShellPermissionSchema x =
     Option.bind (z_object x) (\<lambda>f.
     Option.bind (z_default (JBool False) z_boolean (f ''enabled'')) (\<lambda>en.
     Option.bind (z_default (JArr []) (z_array z_string) (f ''allowedCommands'')) (\<lambda>al.
     Option.bind (z_default (JArr (map JStr default_blockedPatterns)) (z_array z_string)
                    (f ''blockedPatterns'')) (\<lambda>bl.
     Option.bind (z_optional z_string (f ''workingDirectory'')) (\<lambda>wd.
     Option.bind (z_default (JNum 30000) z_int_positive (f ''timeoutMs'')) (\<lambda>tm.
     Option.bind (z_default (JBool True) z_boolean (f ''requiresConfirmation'')) (\<lambda>rc.
     Option.bind (z_default (JObj []) (z_record z_string) (f ''env'')) (\<lambda>ev.
     Some \<lparr>shell_enabled = en, allowedCommands = al, blockedPatterns = bl, workingDirectory = wd,
           shell_timeoutMs = tm, requiresConfirmation = rc, env = ev\<rparr>))))))))"

definition json_ShellPermission :: "ShellPermission \<Rightarrow> json" where
  "json_ShellPermission p = JObj ([
     (''enabled'', JBool (shell_enabled p)),
     (''allowedCommands'', JArr (map JStr (allowedCommands p))),
     (''blockedPatterns'', JArr (map JStr (blockedPatterns p)))]
     @ opt_member ''workingDirectory'' JStr (workingDirectory p) @ [
     (''timeoutMs'', JNum (shell_timeoutMs p)),
     (''requiresConfirmation'', JBool (requiresConfirmation p)),
     (''env'', JObj (map (\<lambda>(k, v). (k, JStr v)) (env p)))])"

record CodeExecPermission =
  codeExec_enabled :: bool
  memoryLimitMb :: rat
  timeLimitMs :: rat
  networkAccess :: bool
  allowedModules :: "string list"

definition CodeExecPermissionSchema :: "json option \<Rightarrow> CodeExecPermission option" where
  "CodeExecPermissionSchema x =
     Option.bind (z_object x) (\<lambda>f.
     Option.bind (z_default (JBool False) z_boolean (f ''enabled'')) (\<lambda>en.
     Option.bind (z_default (JNum 128) z_int_positive (f ''memoryLimitMb'')) (\<lambda>ml.
     Option.bind (z_default (JNum 10000) z_int_positive (f ''timeLimitMs'')) (\<lambda>tl.
     Option.bind (z_default (JBool False) z_boolean (f ''networkAccess'')) (\<lambda>na.
     Option.bind (z_default (JArr []) (z_array z_string) (f ''allowedModules'')) (\<lambda>am.
     Some \<lparr>codeExec_enabled = en, memoryLimitMb = ml, timeLimitMs = tl, networkAccess = na,
           allowedModules = am\<rparr>))))))"

definition json_CodeExecPermission :: "CodeExecPermission \<Rightarrow> json" where
  "json_CodeExecPermission p = JObj [
     (''enabled'', JBool (codeExec_enabled p)),
     (''memoryLimitMb'', JNum (memoryLimitMb p)),
     (''timeLimitMs'', JNum (timeLimitMs p)),
     (''networkAccess'', JBool (networkAccess p)),
     (''allowedModules'', JArr (map JStr (allowedModules p)))]"

record ToolPermissions =
  filesystem :: FileSystemPermission
  http :: HttpPermission
  shell :: ShellPermission
  codeExec :: CodeExecPermission

definition ToolPermissionsSchema :: "json option \<Rightarrow> ToolPermissions option" where
  "ToolPermissionsSchema x =
     Option.bind (z_object x) (\<lambda>f.
     Option.bind (z_default (JObj []) FileSystemPermissionSchema (f ''filesystem'')) (\<lambda>fs.
     Option.bind (z_default (JObj []) HttpPermissionSchema (f ''http'')) (\<lambda>ht.
     Option.bind (z_default (JObj []) ShellPermissionSchema (f ''shell'')) (\<lambda>sh.
     Option.bind (z_default (JObj []) CodeExecPermissionSchema (f ''codeExec'')) (\<lambda>ce.
     Some \<lparr>filesystem = fs, http = ht, shell = sh, codeExec = ce\<rparr>)))))"

definition json_ToolPermissions :: "ToolPermissions \<Rightarrow> json" where
  "json_ToolPermissions p = JObj [
     (''filesystem'', json_FileSystemPermission (filesystem p)),
     (''http'', json_HttpPermission (http p)),
     (''shell'', json_ShellPermission (shell p)),
     (''codeExec'', json_CodeExecPermission (codeExec p))]"

definition DEFAULT_TOOL_PERMISSIONS :: ToolPermissions where
  "DEFAULT_TOOL_PERMISSIONS = \<lparr>
     filesystem = \<lparr>filesystem_enabled = False, access = Read, allowedPaths = [], deniedPaths = [],
       maxFileSizeBytes = 10 * 1024 * 1024\<rparr>,
     http = \<lparr>http_enabled = False, allowedDomains = [], blockedDomains = [], allowedMethods = [GET],
       rateLimitPerMinute = 30, http_timeoutMs = 10000, followRedirects = True,
       maxResponseBytes = 5 * 1024 * 1024\<rparr>,
     shell = \<lparr>shell_enabled = False, allowedCommands = [], blockedPatterns = default_blockedPatterns,
       workingDirectory = None, shell_timeoutMs = 30000, requiresConfirmation = True, env = []\<rparr>,
     codeExec = \<lparr>codeExec_enabled = False, memoryLimitMb = 128, timeLimitMs = 10000,
       networkAccess = False, allowedModules = []\<rparr>\<rparr>"

subsection \<open>\<^verbatim>\<open>provider.schema.ts\<close>\<close>

text \<open>
  The four provider variants, each with its fields in the order of its schema:
  Anthropic (model, apiKeyRef, maxTokens, temperature), OpenAI (model, apiKeyRef, baseUrl,
  maxTokens, temperature), Ollama (model, baseUrl, maxTokens, temperature) and Custom (model,
  baseUrl, apiKeyRef, headers, maxTokens, temperature).
\<close>

datatype ProviderConfig =
    AnthropicProvider string string rat rat
  | OpenAIProvider string string "string option" rat rat
  | OllamaProvider string string rat rat
  | CustomProvider string string "string option" "(string \<times> string) list option" rat rat

text \<open>\<^verbatim>\<open>z.number().min(0).max(1)\<close>\<close>

definition z_temperature :: "json option \<Rightarrow> rat option" where
  "z_temperature x = Option.bind (z_number x) (\<lambda>r. if 0 \<le> r \<and> r \<le> 1 then Some r else None)"

definition nonempty :: "string \<Rightarrow> bool" where
  "nonempty s = (1 \<le> length s)"

definition AnthropicProviderSchema :: "(string \<rightharpoonup> json) \<Rightarrow> ProviderConfig option" where
  "AnthropicProviderSchema f =
     Option.bind (z_default (JStr ''claude-opus-4-6'') z_string (f ''model'')) (\<lambda>mo.
     Option.bind (z_string_where nonempty (f ''apiKeyRef'')) (\<lambda>ak.
     Option.bind (z_default (JNum 4096) z_int_positive (f ''maxTokens'')) (\<lambda>mt.
     Option.bind (z_default (JNum (7 / 10)) z_temperature (f ''temperature'')) (\<lambda>te.
     Some (AnthropicProvider mo ak mt te)))))"

definition OpenAIProviderSchema :: "zod \<Rightarrow> (string \<rightharpoonup> json) \<Rightarrow> ProviderConfig option" where
  "OpenAIProviderSchema z f =
     Option.bind (z_default (JStr ''gpt-4o'') z_string (f ''model'')) (\<lambda>mo.
     Option.bind (z_string_where nonempty (f ''apiKeyRef'')) (\<lambda>ak.
     Option.bind (z_optional (z_string_where (url z)) (f ''baseUrl'')) (\<lambda>bu.
     Option.bind (z_default (JNum 4096) z_int_positive (f ''maxTokens'')) (\<lambda>mt.
     Option.bind (z_default (JNum (7 / 10)) z_temperature (f ''temperature'')) (\<lambda>te.
     Some (OpenAIProvider mo ak bu mt te))))))"

definition OllamaProviderSchema :: "zod \<Rightarrow> (string \<rightharpoonup> json) \<Rightarrow> ProviderConfig option" where
  "OllamaProviderSchema z f =
     Option.bind (z_default (JStr ''llama3.2'') z_string (f ''model'')) (\<lambda>mo.
     Option.bind (z_default (JStr ''http://localhost:11434'') (z_string_where (url z)) (f ''baseUrl'')) (\<lambda>bu.
     Option.bind (z_default (JNum 4096) z_int_positive (f ''maxTokens'')) (\<lambda>mt.
     Option.bind (z_default (JNum (7 / 10)) z_temperature (f ''temperature'')) (\<lambda>te.
     Some (OllamaProvider mo bu mt te)))))"

definition CustomProviderSchema :: "zod \<Rightarrow> (string \<rightharpoonup> json) \<Rightarrow> ProviderConfig option" where
  "CustomProviderSchema z f =
     Option.bind (z_string_where nonempty (f ''model'')) (\<lambda>mo.
     Option.bind (z_string_where (url z) (f ''baseUrl'')) (\<lambda>bu.
     Option.bind (z_optional z_string (f ''apiKeyRef'')) (\<lambda>ak.
     Option.bind (z_optional (z_record z_string) (f ''headers'')) (\<lambda>hs.
     Option.bind (z_default (JNum 4096) z_int_positive (f ''maxTokens'')) (\<lambda>mt.
     Option.bind (z_default (JNum (7 / 10)) z_temperature (f ''temperature'')) (\<lambda>te.
     Some (CustomProvider mo bu ak hs mt te)))))))"

text \<open>\<^verbatim>\<open>z.discriminatedUnion('provider', ...)\<close>\<close>

definition ProviderConfigSchema :: "zod \<Rightarrow> json option \<Rightarrow> ProviderConfig option" where
  "ProviderConfigSchema z x =
     Option.bind (z_object x) (\<lambda>f.
       if f ''provider'' = Some (JStr ''anthropic'') then AnthropicProviderSchema f
       else if f ''provider'' = Some (JStr ''openai'') then OpenAIProviderSchema z f
       else if f ''provider'' = Some (JStr ''ollama'') then OllamaProviderSchema z f
       else if f ''provider'' = Some (JStr ''custom'') then CustomProviderSchema z f
       else None)"

definition json_headers :: "(string \<times> string) list \<Rightarrow> json" where
  "json_headers hs = JObj (map (\<lambda>(k, v). (k, JStr v)) hs)"

fun json_ProviderConfig :: "ProviderConfig \<Rightarrow> json" where
  "json_ProviderConfig (AnthropicProvider mo ak mt te) = JObj [
     (''provider'', JStr ''anthropic''), (''model'', JStr mo), (''apiKeyRef'', JStr ak),
     (''maxTokens'', JNum mt), (''temperature'', JNum te)]"
| "json_ProviderConfig (OpenAIProvider mo ak bu mt te) = JObj ([
     (''provider'', JStr ''openai''), (''model'', JStr mo), (''apiKeyRef'', JStr ak)]
     @ opt_member ''baseUrl'' JStr bu
     @ [(''maxTokens'', JNum mt), (''temperature'', JNum te)])"
| "json_ProviderConfig (OllamaProvider mo bu mt te) = JObj [
     (''provider'', JStr ''ollama''), (''model'', JStr mo), (''baseUrl'', JStr bu),
     (''maxTokens'', JNum mt), (''temperature'', JNum te)]"
| "json_ProviderConfig (CustomProvider mo bu ak hs mt te) = JObj ([
     (''provider'', JStr ''custom''), (''model'', JStr mo), (''baseUrl'', JStr bu)]
     @ opt_member ''apiKeyRef'' JStr ak @ opt_member ''headers'' json_headers hs
     @ [(''maxTokens'', JNum mt), (''temperature'', JNum te)])"

definition DEFAULT_PROVIDER :: ProviderConfig where
  "DEFAULT_PROVIDER = AnthropicProvider ''claude-opus-4-6'' [] 4096 (7 / 10)"

subsection \<open>\<^verbatim>\<open>agent.schema.ts\<close>\<close>

datatype NodeType =
    Input_node | Output_node | LLM_call | Tool_call | Code_block | Condition | Transform

fun NodeType_text :: "NodeType \<Rightarrow> string" where
  "NodeType_text Input_node = ''input''"
| "NodeType_text Output_node = ''output''"
| "NodeType_text LLM_call = ''llm-call''"
| "NodeType_text Tool_call = ''tool-call''"
| "NodeType_text Code_block = ''code-block''"
| "NodeType_text Condition = ''condition''"
| "NodeType_text Transform = ''transform''"

definition NodeTypeSchema :: "json option \<Rightarrow> NodeType option" where
  "NodeTypeSchema x = Option.bind (z_string x) (\<lambda>s.
     if s = ''input'' then Some Input_node else if s = ''output'' then Some Output_node
     else if s = ''llm-call'' then Some LLM_call else if s = ''tool-call'' then Some Tool_call
     else if s = ''code-block'' then Some Code_block else if s = ''condition'' then Some Condition
     else if s = ''transform'' then Some Transform else None)"

text \<open>\<^verbatim>\<open>z.object({ x: z.number(), y: z.number() })\<close>, as the pair of the two coordinates\<close>

definition z_position :: "json option \<Rightarrow> (rat \<times> rat) option" where
  "z_position x =
     Option.bind (z_object x) (\<lambda>f.
     Option.bind (z_number (f ''x'')) (\<lambda>px.
     Option.bind (z_number (f ''y'')) (\<lambda>py. Some (px, py))))"

definition json_position :: "rat \<times> rat \<Rightarrow> json" where
  "json_position p = JObj [(''x'', JNum (fst p)), (''y'', JNum (snd p))]"

record GraphNode =
  node_id :: string
  node_type :: NodeType
  position :: "rat \<times> rat"
  data :: "(string \<times> json) list"

definition GraphNodeSchema :: "json option \<Rightarrow> GraphNode option" where
  "GraphNodeSchema x =
     Option.bind (z_object x) (\<lambda>f.
     Option.bind (z_string (f ''id'')) (\<lambda>i.
     Option.bind (NodeTypeSchema (f ''type'')) (\<lambda>t.
     Option.bind (z_position (f ''position'')) (\<lambda>p.
     Option.bind (z_record_unknown (f ''data'')) (\<lambda>d.
     Some \<lparr>node_id = i, node_type = t, position = p, data = d\<rparr>)))))"

definition json_GraphNode :: "GraphNode \<Rightarrow> json" where
  "json_GraphNode n = JObj [
     (''id'', JStr (node_id n)),
     (''type'', JStr (NodeType_text (node_type n))),
     (''position'', json_position (position n)),
     (''data'', JObj (data n))]"

record GraphEdge =
  edge_id :: string
  source :: string
  sourceHandle :: "string option"
  target :: string
  targetHandle :: "string option"
  label :: "string option"

definition GraphEdgeSchema :: "json option \<Rightarrow> GraphEdge option" where
  "GraphEdgeSchema x =
     Option.bind (z_object x) (\<lambda>f.
     Option.bind (z_string (f ''id'')) (\<lambda>i.
     Option.bind (z_string (f ''source'')) (\<lambda>s.
     Option.bind (z_optional z_string (f ''sourceHandle'')) (\<lambda>sh.
     Option.bind (z_string (f ''target'')) (\<lambda>t.
     Option.bind (z_optional z_string (f ''targetHandle'')) (\<lambda>th.
     Option.bind (z_optional z_string (f ''label'')) (\<lambda>l.
     Some \<lparr>edge_id = i, source = s, sourceHandle = sh, target = t, targetHandle = th,
           label = l\<rparr>)))))))"

definition json_GraphEdge :: "GraphEdge \<Rightarrow> json" where
  "json_GraphEdge e = JObj ([
     (''id'', JStr (edge_id e)),
     (''source'', JStr (source e))]
     @ opt_member ''sourceHandle'' JStr (sourceHandle e)
     @ [(''target'', JStr (target e))]
     @ opt_member ''targetHandle'' JStr (targetHandle e)
     @ opt_member ''label'' JStr (label e))"

record Graph =
  nodes :: "GraphNode list"
  edges :: "GraphEdge list"

definition GraphSchema :: "json option \<Rightarrow> Graph option" where
  "GraphSchema x =
     Option.bind (z_object x) (\<lambda>f.
     Option.bind (z_default (JArr []) (z_array GraphNodeSchema) (f ''nodes'')) (\<lambda>ns.
     Option.bind (z_default (JArr []) (z_array GraphEdgeSchema) (f ''edges'')) (\<lambda>es.
     Some \<lparr>nodes = ns, edges = es\<rparr>)))"

definition json_Graph :: "Graph \<Rightarrow> json" where
  "json_Graph g = JObj [
     (''nodes'', JArr (map json_GraphNode (nodes g))),
     (''edges'', JArr (map json_GraphEdge (edges g)))]"

text \<open>The name of a code block: \<^verbatim>\<open>/^[a-zA-Z][a-zA-Z0-9_]*$/\<close>, between 1 and 64 characters.\<close>

definition is_letter :: "char \<Rightarrow> bool" where
  "is_letter c = (let n = (of_char c :: nat) in (97 \<le> n \<and> n \<le> 122) \<or> (65 \<le> n \<and> n \<le> 90))"

definition is_word_char :: "char \<Rightarrow> bool" where
  "is_word_char c = (let n = (of_char c :: nat) in is_letter c \<or> (48 \<le> n \<and> n \<le> 57) \<or> c = CHR ''_'')"

definition is_identifier :: "string \<Rightarrow> bool" where
  "is_identifier s = (case s of [] \<Rightarrow> False | c # cs \<Rightarrow> is_letter c \<and> list_all is_word_char cs)"

definition block_name_ok :: "string \<Rightarrow> bool" where
  "block_name_ok s = (1 \<le> length s \<and> length s \<le> 64 \<and> is_identifier s)"

definition unlines :: "string list \<Rightarrow> string" where
  "unlines ls = concat (map (\<lambda>l. l @ [CHR 0x0A]) ls)"

definition DEFAULT_CODE_BLOCK_TEMPLATE :: string where
  "DEFAULT_CODE_BLOCK_TEMPLATE = unlines [
     ''import { z } from '' @ [CHR 0x27] @ ''zod'' @ [CHR 0x27],
     [],
     ''// Define the input schema for this code block'',
     ''const inputSchema = z.object({'',
     ''  // Add your input fields here'',
     ''  message: z.string()'',
     ''})'',
     [],
     ''// BlockContext provides access to safe, permission-checked sub-tools'',
     ''export default async function run('',
     ''  input: z.infer<typeof inputSchema>,'',
     ''  ctx: BlockContext'',
     ''): Promise<{ result: string }> {'',
     ''  // ctx.log() - log messages to the console'',
     ''  // ctx.http.get(url) - make HTTP requests (requires http permission)'',
     ''  // ctx.fs.readFile(path) - read files (requires filesystem permission)'',
     ''  // ctx.shell.exec(cmd, args) - run shell commands (requires shell permission)'',
     [],
     ''  ctx.log('' @ [CHR 0x27] @ ''Running code block with input:'' @ [CHR 0x27] @ '', input)'',
     [],
     ''  return {'',
     ''    result: `Processed: ${input.message}`'',
     ''  }'',
     ''}'']"

record CodeBlock =
  block_id :: string
  block_name :: string
  block_description :: string
  block_code :: string
  inputSchema :: string
  graphPosition :: "(rat \<times> rat) option"
  block_createdAt :: string
  block_updatedAt :: string

definition CodeBlockSchema :: "zod \<Rightarrow> json option \<Rightarrow> CodeBlock option" where
  "CodeBlockSchema z x =
     Option.bind (z_object x) (\<lambda>f.
     Option.bind (z_string_where (uuid z) (f ''id'')) (\<lambda>i.
     Option.bind (z_string_where block_name_ok (f ''name'')) (\<lambda>n.
     Option.bind (z_default (JStr []) (z_string_where (\<lambda>s. length s \<le> 512)) (f ''description'')) (\<lambda>d.
     Option.bind (z_default (JStr DEFAULT_CODE_BLOCK_TEMPLATE) z_string (f ''code'')) (\<lambda>c.
     Option.bind (z_default (JStr ''z.object({})'') z_string (f ''inputSchema'')) (\<lambda>s.
     Option.bind (z_optional z_position (f ''graphPosition'')) (\<lambda>g.
     Option.bind (z_string_where (datetime z) (f ''createdAt'')) (\<lambda>ca.
     Option.bind (z_string_where (datetime z) (f ''updatedAt'')) (\<lambda>ua.
     Some \<lparr>block_id = i, block_name = n, block_description = d, block_code = c, inputSchema = s,
           graphPosition = g, block_createdAt = ca, block_updatedAt = ua\<rparr>)))))))))"

definition json_CodeBlock :: "CodeBlock \<Rightarrow> json" where
  "json_CodeBlock b = JObj ([
     (''id'', JStr (block_id b)),
     (''name'', JStr (block_name b)),
     (''description'', JStr (block_description b)),
     (''code'', JStr (block_code b)),
     (''inputSchema'', JStr (inputSchema b))]
     @ opt_member ''graphPosition'' json_position (graphPosition b) @ [
     (''createdAt'', JStr (block_createdAt b)),
     (''updatedAt'', JStr (block_updatedAt b))])"

record AgentDefinition =
  id' :: string
  version :: rat
  name :: string
  description :: string
  createdAt :: string
  updatedAt :: string
  provider :: ProviderConfig
  systemPrompt :: string
  graph :: Graph
  codeBlocks :: "CodeBlock list"
  permissions :: ToolPermissions
  tags :: "string list"
  auditEnabled :: bool

text \<open>\<^verbatim>\<open>z.literal(1)\<close>\<close>

definition z_literal_1 :: "json option \<Rightarrow> rat option" where
  "z_literal_1 x = (if x = Some (JNum 1) then Some 1 else None)"

definition AgentDefinitionSchema :: "zod \<Rightarrow> json option \<Rightarrow> AgentDefinition option" where
  "AgentDefinitionSchema z x =
     Option.bind (z_object x) (\<lambda>f.
     Option.bind (z_string_where (uuid z) (f ''id'')) (\<lambda>i.
     Option.bind (z_literal_1 (f ''version'')) (\<lambda>v.
     Option.bind (z_string_where (\<lambda>s. 1 \<le> length s \<and> length s \<le> 128) (f ''name'')) (\<lambda>n.
     Option.bind (z_default (JStr []) (z_string_where (\<lambda>s. length s \<le> 1024)) (f ''description'')) (\<lambda>d.
     Option.bind (z_string_where (datetime z) (f ''createdAt'')) (\<lambda>ca.
     Option.bind (z_string_where (datetime z) (f ''updatedAt'')) (\<lambda>ua.
     Option.bind (ProviderConfigSchema z (f ''provider'')) (\<lambda>pr.
     Option.bind (z_default (JStr ''You are a helpful AI assistant.'') z_string (f ''systemPrompt'')) (\<lambda>sp.
     Option.bind (GraphSchema (f ''graph'')) (\<lambda>g.
     Option.bind (z_default (JArr []) (z_array (CodeBlockSchema z)) (f ''codeBlocks'')) (\<lambda>cb.
     Option.bind (z_default (JObj []) ToolPermissionsSchema (f ''permissions'')) (\<lambda>pe.
     Option.bind (z_default (JArr []) (z_array z_string) (f ''tags'')) (\<lambda>tg.
     Option.bind (z_default (JBool True) z_boolean (f ''auditEnabled'')) (\<lambda>ae.
     Some \<lparr>id' = i, version = v, name = n, description = d, createdAt = ca, updatedAt = ua,
           provider = pr, systemPrompt = sp, graph = g, codeBlocks = cb, permissions = pe,
           tags = tg, auditEnabled = ae\<rparr>))))))))))))))"

text \<open>The object an agent is for \<^verbatim>\<open>JSON.stringify\<close> and for the schema, in the order of its properties.\<close>

definition json_AgentDefinition :: "AgentDefinition \<Rightarrow> json" where
  "json_AgentDefinition a = JObj [
     (''id'', JStr (id' a)),
     (''version'', JNum (version a)),
     (''name'', JStr (name a)),
     (''description'', JStr (description a)),
     (''createdAt'', JStr (createdAt a)),
     (''updatedAt'', JStr (updatedAt a)),
     (''provider'', json_ProviderConfig (provider a)),
     (''systemPrompt'', JStr (systemPrompt a)),
     (''graph'', json_Graph (graph a)),
     (''codeBlocks'', JArr (map json_CodeBlock (codeBlocks a))),
     (''permissions'', json_ToolPermissions (permissions a)),
     (''tags'', JArr (map JStr (tags a))),
     (''auditEnabled'', JBool (auditEnabled a))]"

text \<open>\<^verbatim>\<open>createDefaultGraph\<close>\<close>

definition createDefaultGraph :: Graph where
  "createDefaultGraph = \<lparr>
     nodes = [
       \<lparr>node_id = ''node-input'', node_type = Input_node, position = (100, 200),
        data = [(''variableName'', JStr ''userMessage''), (''description'', JStr ''User input'')]\<rparr>,
       \<lparr>node_id = ''node-llm'', node_type = LLM_call, position = (350, 200),
        data = [(''inputBindings'', JObj [(''userMessage'', JStr ''{{userMessage}}'')]),
                (''outputVariable'', JStr ''llmResponse''), (''streaming'', JBool True)]\<rparr>,
       \<lparr>node_id = ''node-output'', node_type = Output_node, position = (600, 200),
        data = [(''template'', JStr ''{{llmResponse}}'')]\<rparr>],
     edges = [
       \<lparr>edge_id = ''edge-1'', source = ''node-input'', sourceHandle = Some ''handle-out'',
        target = ''node-llm'', targetHandle = Some ''handle-in'', label = None\<rparr>,
       \<lparr>edge_id = ''edge-2'', source = ''node-llm'', sourceHandle = Some ''handle-out'',
        target = ''node-output'', targetHandle = Some ''handle-in'', label = None\<rparr>]\<rparr>"

section \<open>The agents repository (\<^verbatim>\<open>storage/agents.repo.ts\<close>)\<close>

text \<open>
  \<^verbatim>\<open>rowToAgent\<close> builds the raw object from the columns and parses it with the schema;
  \<^verbatim>\<open>agentToRow\<close> serializes the structured fields.
\<close>

definition raw_of_row :: "AgentRow \<Rightarrow> json" where
  "raw_of_row row = JObj [
     (''id'', JStr (id_col row)),
     (''version'', JNum (version_col row)),
     (''name'', JStr (name_col row)),
     (''description'', JStr (description_col row)),
     (''provider'', provider_col row),
     (''systemPrompt'', JStr (system_prompt row)),
     (''graph'', graph_col row),
     (''codeBlocks'', code_blocks row),
     (''permissions'', permissions_col row),
     (''tags'', tags_col row),
     (''auditEnabled'', JBool (audit_enabled row = 1)),
     (''createdAt'', JStr (created_at row)),
     (''updatedAt'', JStr (updated_at row))]"

definition invalid_agent :: exn where
  "invalid_agent = ZodError ''invalid agent definition''"

definition rowToAgent :: "zod \<Rightarrow> AgentRow \<Rightarrow> exn + AgentDefinition" where
  "rowToAgent z row = (case AgentDefinitionSchema z (Some (raw_of_row row)) of
      None \<Rightarrow> Inl invalid_agent
    | Some a \<Rightarrow> Inr a)"

definition agentToRow :: "AgentDefinition \<Rightarrow> AgentRow" where
  "agentToRow agent = \<lparr>
     id_col = id' agent,
     version_col = version agent,
     name_col = name agent,
     description_col = description agent,
     provider_col = json_ProviderConfig (provider agent),
     system_prompt = systemPrompt agent,
     graph_col = json_Graph (graph agent),
     code_blocks = JArr (map json_CodeBlock (codeBlocks agent)),
     permissions_col = json_ToolPermissions (permissions agent),
     tags_col = JArr (map JStr (tags agent)),
     audit_enabled = (if auditEnabled agent then 1 else 0),
     created_at = createdAt agent,
     updated_at = updatedAt agent\<rparr>"

text \<open>\<^verbatim>\<open>SELECT * FROM agents WHERE id = ?\<close>: the column is the primary key, so at most one row matches.\<close>

definition select_agent :: "database \<Rightarrow> string \<Rightarrow> AgentRow option" where
  "select_agent d i = find (\<lambda>r. id_col r = i) (agents d)"

definition getAgent :: "zod \<Rightarrow> database option \<Rightarrow> string \<Rightarrow> exn + AgentDefinition option" where
  "getAgent z db i = (case getDb db of
      Inl e \<Rightarrow> Inl e
    | Inr d \<Rightarrow> (case select_agent d i of
        None \<Rightarrow> Inr None
      | Some row \<Rightarrow> (case rowToAgent z row of
          Inl e \<Rightarrow> Inl e
        | Inr a \<Rightarrow> Inr (Some a))))"

text \<open>
  \<^verbatim>\<open>Partial<AgentDefinition>\<close>: each property is present or not. The spread
  \<^verbatim>\<open>{ ...existing, ...updates, id, version: 1, updatedAt }\<close> takes a property from the
  updates when they have it, and then sets the last three.
\<close>

record AgentUpdates =
  upd_id :: "string option"
  upd_version :: "rat option"
  upd_name :: "string option"
  upd_description :: "string option"
  upd_createdAt :: "string option"
  upd_updatedAt :: "string option"
  upd_provider :: "ProviderConfig option"
  upd_systemPrompt :: "string option"
  upd_graph :: "Graph option"
  upd_codeBlocks :: "CodeBlock list option"
  upd_permissions :: "ToolPermissions option"
  upd_tags :: "string list option"
  upd_auditEnabled :: "bool option"

definition or_else :: "'a option \<Rightarrow> 'a \<Rightarrow> 'a" where
  "or_else u v = (case u of Some w \<Rightarrow> w | None \<Rightarrow> v)"

definition merged_agent :: "AgentDefinition \<Rightarrow> AgentUpdates \<Rightarrow> string \<Rightarrow> string \<Rightarrow> AgentDefinition" where
  "merged_agent existing updates i now = \<lparr>
     id' = i,
     version = 1,
     name = or_else (upd_name updates) (name existing),
     description = or_else (upd_description updates) (description existing),
     createdAt = or_else (upd_createdAt updates) (createdAt existing),
     updatedAt = now,
     provider = or_else (upd_provider updates) (provider existing),
     systemPrompt = or_else (upd_systemPrompt updates) (systemPrompt existing),
     graph = or_else (upd_graph updates) (graph existing),
     codeBlocks = or_else (upd_codeBlocks updates) (codeBlocks existing),
     permissions = or_else (upd_permissions updates) (permissions existing),
     tags = or_else (upd_tags updates) (tags existing),
     auditEnabled = or_else (upd_auditEnabled updates) (auditEnabled existing)\<rparr>"

text \<open>The \<^verbatim>\<open>UPDATE\<close> statement sets every column but \<^verbatim>\<open>id\<close> and \<^verbatim>\<open>created_at\<close>.\<close>

definition update_row :: "AgentRow \<Rightarrow> AgentRow \<Rightarrow> AgentRow" where
  "update_row old new = new\<lparr>id_col := id_col old, created_at := created_at old\<rparr>"

definition updateAgent ::
  "zod \<Rightarrow> string \<Rightarrow> database option \<Rightarrow> string \<Rightarrow> AgentUpdates \<Rightarrow> exn + AgentDefinition \<times> database option" where
  "updateAgent z now db i updates = (case getDb db of
      Inl e \<Rightarrow> Inl e
    | Inr d \<Rightarrow> (case getAgent z db i of
        Inl e \<Rightarrow> Inl e
      | Inr None \<Rightarrow> Inl (Error (''Agent not found: '' @ i))
      | Inr (Some existing) \<Rightarrow>
          (let merged = merged_agent existing updates i now in
           (case AgentDefinitionSchema z (Some (json_AgentDefinition merged)) of
              None \<Rightarrow> Inl invalid_agent
            | Some _ \<Rightarrow> (case write_fault d of
                Some e \<Rightarrow> Inl e
              | None \<Rightarrow> Inr (merged,
                  Some (d\<lparr>agents := map (\<lambda>old. if id_col old = i
                      then update_row old (agentToRow merged) else old) (agents d)\<rparr>)))))))"

definition exportAgent :: "zod \<Rightarrow> database option \<Rightarrow> string \<Rightarrow> exn + json" where
  "exportAgent z db i = (case getAgent z db i of
      Inl e \<Rightarrow> Inl e
    | Inr None \<Rightarrow> Inl (Error (''Agent not found: '' @ i))
    | Inr (Some agent) \<Rightarrow> Inr (json_AgentDefinition agent))"

text \<open>
  The exported text is modelled by the value it denotes, so \<^verbatim>\<open>importAgent\<close> takes the value
  \<^verbatim>\<open>JSON.parse\<close> returns. Spreading a value that is no object gives the indexed elements
  of an array or a string and nothing for the rest.
\<close>

fun decimal :: "nat \<Rightarrow> string" where
  "decimal n = (if n < 10 then [''0123456789'' ! n] else decimal (n div 10) @ [''0123456789'' ! (n mod 10)])"

definition spread :: "json \<Rightarrow> (string \<times> json) list" where
  "spread j = (case j of
      JObj ms \<Rightarrow> ms
    | JArr xs \<Rightarrow> map (\<lambda>(n, x). (decimal n, x)) (zip [0..<length xs] xs)
    | JStr s \<Rightarrow> map (\<lambda>(n, c). (decimal n, JStr [c])) (zip [0..<length s] s)
    | _ \<Rightarrow> [])"

definition insert_agent :: "database option \<Rightarrow> AgentRow \<Rightarrow> exn + database option" where
  "insert_agent db row = (case getDb db of
      Inl e \<Rightarrow> Inl e
    | Inr d \<Rightarrow> (case write_fault d of
        Some e \<Rightarrow> Inl e
      | None \<Rightarrow> (case select_agent d (id_col row) of
          Some _ \<Rightarrow> Inl (SqliteError ''UNIQUE constraint failed: agents.id'')
        | None \<Rightarrow> Inr (Some (d\<lparr>agents := agents d @ [row]\<rparr>)))))"

text \<open>
  \<^verbatim>\<open>createAgent(name, description = '')\<close>: \<^verbatim>\<open>uuidv4()\<close> and the reading of the clock are the
  parameters \<^verbatim>\<open>newId\<close> and \<^verbatim>\<open>now\<close>. The agent is stored as built; the schema is not
  consulted.
\<close>

definition createAgent ::
  "string \<Rightarrow> string \<Rightarrow> database option \<Rightarrow> string \<Rightarrow> string \<Rightarrow> exn + AgentDefinition \<times> database option" where
  "createAgent newId now db agentName agentDescription = (case getDb db of
      Inl e \<Rightarrow> Inl e
    | Inr d \<Rightarrow>
        (let agent = \<lparr>
               id' = newId,
               version = 1,
               name = agentName,
               description = agentDescription,
               createdAt = now,
               updatedAt = now,
               provider = DEFAULT_PROVIDER,
               systemPrompt = ''You are a helpful AI assistant.'',
               graph = createDefaultGraph,
               codeBlocks = [],
               permissions = DEFAULT_TOOL_PERMISSIONS,
               tags = [],
               auditEnabled = True\<rparr>
         in (case insert_agent db (agentToRow agent) of
               Inl e \<Rightarrow> Inl e
             | Inr db' \<Rightarrow> Inr (agent, db'))))"

text \<open>\<^verbatim>\<open>uuidv4()\<close> and the two readings of the clock are the parameters \<^verbatim>\<open>newId\<close>, \<^verbatim>\<open>now1\<close>, \<^verbatim>\<open>now2\<close>.\<close>

definition importAgent ::
  "zod \<Rightarrow> string \<Rightarrow> string \<Rightarrow> string \<Rightarrow> database option \<Rightarrow> json \<Rightarrow> exn + AgentDefinition \<times> database option" where
  "importAgent z newId now1 now2 db parsed =
     (case AgentDefinitionSchema z (Some (JObj
            (AList.update ''updatedAt'' (JStr now2)
              (AList.update ''createdAt'' (JStr now1)
                (AList.update ''id'' (JStr newId) (spread parsed)))))) of
        None \<Rightarrow> Inl invalid_agent
      | Some agent \<Rightarrow> (case insert_agent db (agentToRow agent) of
          Inl e \<Rightarrow> Inl e
        | Inr db' \<Rightarrow> Inr (agent, db')))"

section \<open>The sandboxed code-block executor (\<^verbatim>\<open>runCodeBlock\<close>)\<close>

text \<open>
  Values inside the QuickJS context, and what \<^verbatim>\<open>vm.dump\<close> hands to the host: a string or a
  number as itself, \<^verbatim>\<open>undefined\<close> as \<^verbatim>\<open>undefined\<close>, an error object as its \<^verbatim>\<open>name\<close>,
  \<^verbatim>\<open>message\<close> and \<^verbatim>\<open>stack\<close>.
\<close>

datatype vmval = VUndefined | VJson json | VError string string

datatype jsvalue = Undefined | Value json

text \<open>
  The user's code, parsed. The text is spliced into the body of the harness function, so its
  top level is a statement list of that body: the model covers calls of \<^verbatim>\<open>__ctx.log\<close> with
  constant arguments, \<^verbatim>\<open>throw\<close>, \<^verbatim>\<open>return\<close> (which leaves the harness function) and loops
  that never end. \<^verbatim>\<open>Input\<close> is the input value, \<^verbatim>\<open>__input\<close> at top level and the first
  parameter inside \<^verbatim>\<open>run\<close>. The second component of a script is the function that \<^verbatim>\<open>run\<close>
  names once the top level has completed: a function (a declaration, which is hoisted, or
  another binding to a function), given by its body, or a class, whose \<^verbatim>\<open>typeof\<close> is
  \<^verbatim>\<open>'function'\<close> too; and \<^verbatim>\<open>None\<close> when \<^verbatim>\<open>run\<close> names neither. Text the engine cannot parse is \<^verbatim>\<open>Unparsable\<close> with the
  engine's message. The code covered binds no name the harness uses after it: \<^verbatim>\<open>Error\<close> is
  the engine's constructor when the harness throws.
\<close>

datatype expr = Const vmval | Input

datatype stmt = SLog "vmval list" | SThrow vmval | SReturn expr | SSpin

datatype run_decl = RunFn "stmt list" | RunClass

datatype code = Unparsable string | Script "stmt list" "run_decl option"

text \<open>
  The collaborator: the quickjs-emscripten module. A fault is an exception the host call
  throws; \<^verbatim>\<open>stack_text\<close> is the \<^verbatim>\<open>stack\<close> the engine gives an error object and
  \<^verbatim>\<open>number_text\<close> the decimal text of a number.
\<close>

record quickjs =
  import_fault :: "exn option"
  newContext_fault :: "exn option"
  evalCode_fault :: "exn option"
  dispose_fault :: "exn option"
  stack_text :: string
  number_text :: "rat \<Rightarrow> string"

definition dump :: "quickjs \<Rightarrow> vmval \<Rightarrow> jsvalue" where
  "dump q v = (case v of
      VUndefined \<Rightarrow> Undefined
    | VJson j \<Rightarrow> Value j
    | VError n m \<Rightarrow> Value (JObj [(''name'', JStr n), (''message'', JStr m), (''stack'', JStr (stack_text q))]))"

text \<open>
  How a statement list ends. A loop that never ends is left only through the interrupt
  handler, which returns \<^verbatim>\<open>true\<close> at the first poll after the deadline. The second
  component collects the calls of \<^verbatim>\<open>blockCtx.log\<close> on the host, in order.
\<close>

datatype completion = Completed | Returned vmval | Thrown vmval | Interrupted

fun exec :: "quickjs \<Rightarrow> vmval \<Rightarrow> stmt list \<Rightarrow> completion \<times> jsvalue list list" where
  "exec q input [] = (Completed, [])"
| "exec q input (SLog args # ss) =
     (case exec q input ss of (c, calls) \<Rightarrow> (c, map (dump q) args # calls))"
| "exec q input (SThrow v # ss) = (Thrown v, [])"
| "exec q input (SReturn e # ss) = (Returned (case e of Const v \<Rightarrow> v | Input \<Rightarrow> input), [])"
| "exec q input (SSpin # ss) = (Interrupted, [])"

text \<open>
  \<^verbatim>\<open>vm.evalCode(harness)\<close>: the harness binds \<^verbatim>\<open>__input\<close> and \<^verbatim>\<open>__ctx\<close>, runs the user's
  code, then tests \<^verbatim>\<open>typeof run\<close> and returns \<^verbatim>\<open>run(__input, __ctx)\<close>. A \<^verbatim>\<open>return\<close> at the
  top level of the user's code ends the harness function with that value, before the test.
  A \<^verbatim>\<open>run\<close> whose body ends without \<^verbatim>\<open>return\<close> gives \<^verbatim>\<open>undefined\<close>.
\<close>

record eval_outcome =
  interrupted :: bool
  evalResult :: "vmval + vmval"
  log_calls :: "jsvalue list list"

definition no_run_error :: vmval where
  "no_run_error = VError ''Error'' (''Code block must define a function named '' @ [CHR 0x22] @ ''run'' @ [CHR 0x22])"

definition interrupted_error :: vmval where
  "interrupted_error = VError ''InternalError'' ''interrupted''"

text \<open>The engine's error when a class is called without \<^verbatim>\<open>new\<close>.\<close>

definition class_call_error :: vmval where
  "class_call_error = VError ''TypeError''
     (''class constructors must be invoked with '' @ [CHR 0x27] @ ''new'' @ [CHR 0x27])"

definition evalCode :: "quickjs \<Rightarrow> code \<Rightarrow> vmval \<Rightarrow> eval_outcome" where
  "evalCode q c input = (case c of
      Unparsable m \<Rightarrow> \<lparr>interrupted = False, evalResult = Inl (VError ''SyntaxError'' m), log_calls = []\<rparr>
    | Script stmts decl \<Rightarrow> (case exec q input stmts of
          (Thrown v, calls) \<Rightarrow> \<lparr>interrupted = False, evalResult = Inl v, log_calls = calls\<rparr>
        | (Interrupted, calls) \<Rightarrow>
            \<lparr>interrupted = True, evalResult = Inl interrupted_error, log_calls = calls\<rparr>
        | (Returned v, calls) \<Rightarrow> \<lparr>interrupted = False, evalResult = Inr v, log_calls = calls\<rparr>
        | (Completed, calls) \<Rightarrow> (case decl of
              None \<Rightarrow> \<lparr>interrupted = False, evalResult = Inl no_run_error, log_calls = calls\<rparr>
            | Some RunClass \<Rightarrow>
                \<lparr>interrupted = False, evalResult = Inl class_call_error, log_calls = calls\<rparr>
            | Some (RunFn body) \<Rightarrow> (case exec q input body of
                  (Thrown v, calls') \<Rightarrow>
                    \<lparr>interrupted = False, evalResult = Inl v, log_calls = calls @ calls'\<rparr>
                | (Interrupted, calls') \<Rightarrow>
                    \<lparr>interrupted = True, evalResult = Inl interrupted_error, log_calls = calls @ calls'\<rparr>
                | (Returned v, calls') \<Rightarrow>
                    \<lparr>interrupted = False, evalResult = Inr v, log_calls = calls @ calls'\<rparr>
                | (Completed, calls') \<Rightarrow>
                    \<lparr>interrupted = False, evalResult = Inr VUndefined, log_calls = calls @ calls'\<rparr>))))"

record SandboxResult =
  success :: bool
  result :: "jsvalue option"
  sandbox_error :: "string option"
  timedOut :: "bool option"

text \<open>\<^verbatim>\<open>typeof err === 'string' ? err : JSON.stringify(err)\<close>.\<close>

definition runError_of :: "quickjs \<Rightarrow> jsvalue \<Rightarrow> string option" where
  "runError_of q e = (case e of
      Undefined \<Rightarrow> None
    | Value (JStr s) \<Rightarrow> Some s
    | Value j \<Rightarrow> Some (stringify (number_text q) j))"

text \<open>A string is truthy when it is defined and not empty.\<close>

definition truthy :: "string option \<Rightarrow> bool" where
  "truthy s = (case s of None \<Rightarrow> False | Some t \<Rightarrow> t \<noteq> [])"

text \<open>
  The inner \<^verbatim>\<open>try ... finally\<close>: the values of \<^verbatim>\<open>timedOut\<close>, \<^verbatim>\<open>result\<close> and
  \<^verbatim>\<open>runError\<close> after it, or the exception that leaves it. \<^verbatim>\<open>vm.dispose()\<close> runs on
  either path and its exception replaces a pending one.
\<close>

definition run_in_vm ::
  "quickjs \<Rightarrow> code \<Rightarrow> unknown \<Rightarrow> (exn + bool \<times> jsvalue \<times> string option) \<times> jsvalue list list" where
  "run_in_vm q c input =
     (let attempt = (case JSON_stringify (number_text q) input of
            Inl e \<Rightarrow> (Inl e, [])
          | Inr inputJson \<Rightarrow> (case evalCode_fault q of
              Some e \<Rightarrow> (Inl e, [])
            | None \<Rightarrow>
                (let out = evalCode q c (case input of Serializable j \<Rightarrow> VJson j | _ \<Rightarrow> VUndefined)
                 in (case evalResult out of
                      Inl e \<Rightarrow> (Inr (interrupted out, Undefined, runError_of q (dump q e)), log_calls out)
                    | Inr v \<Rightarrow> (Inr (interrupted out, dump q v, None), log_calls out)))))
      in (case dispose_fault q of
            Some e \<Rightarrow> (Inl e, snd attempt)
          | None \<Rightarrow> attempt))"

text \<open>
  \<^verbatim>\<open>runCodeBlock(code, input, blockCtx, limits)\<close>. The second component is what it did to
  \<^verbatim>\<open>blockCtx\<close>: the calls of \<^verbatim>\<open>blockCtx.log\<close>.
\<close>

definition runCodeBlock ::
  "quickjs \<Rightarrow> code \<Rightarrow> unknown \<Rightarrow> CodeExecPermission \<Rightarrow> SandboxResult \<times> jsvalue list list" where
  "runCodeBlock q c input limits =
     (let caught = (\<lambda>e. \<lparr>success = False, result = None, sandbox_error = Some (String_of e), timedOut = None\<rparr>)
      in (case import_fault q of
            Some e \<Rightarrow> (caught e, [])
          | None \<Rightarrow> (case newContext_fault q of
              Some e \<Rightarrow> (caught e, [])
            | None \<Rightarrow> (case run_in_vm q c input of
                (Inl e, calls) \<Rightarrow> (caught e, calls)
              | (Inr (timedOut', result', runError), calls) \<Rightarrow>
                  if timedOut' then
                    (\<lparr>success = False, result = None,
                      sandbox_error = Some (''Execution timed out after '' @ number_text q (timeLimitMs limits) @ ''ms''),
                      timedOut = Some True\<rparr>, calls)
                  else if truthy runError then
                    (\<lparr>success = False, result = None, sandbox_error = runError, timedOut = None\<rparr>, calls)
                  else
                    (\<lparr>success = True, result = Some result', sandbox_error = None, timedOut = None\<rparr>, calls)))))"

text \<open>A healthy engine, as the examples use it.\<close>

definition healthy_quickjs :: quickjs where
  "healthy_quickjs = \<lparr>import_fault = None, newContext_fault = None, evalCode_fault = None,
     dispose_fault = None, stack_text = ''    at <eval>'', number_text = (\<lambda>r. ''0'')\<rparr>"

definition default_limits :: CodeExecPermission where
  "default_limits = \<lparr>codeExec_enabled = False, memoryLimitMb = 128, timeLimitMs = 10000,
     networkAccess = False, allowedModules = []\<rparr>"

text \<open>Example databases and a \<^verbatim>\<open>safeStorage\<close> without encryption, as \<^verbatim>\<open>scripts/check-main.js\<close> stubs it.\<close>

definition empty_db :: database where
  "empty_db = \<lparr>agents = [], settings = Map.empty, audit_log = [], audit_seq = 0, write_fault = None\<rparr>"

definition plain_storage :: safeStorage where
  "plain_storage = \<lparr>isEncryptionAvailable = False, encryptString = (\<lambda>s. s), decryptString = (\<lambda>s. Some s)\<rparr>"

definition db_with_secret :: "string \<Rightarrow> database option" where
  "db_with_secret v = Some (empty_db\<lparr>settings := [''secret:openai'' \<mapsto> ''PLAIN:'' @ v]\<rparr>)"


section \<open>The runner (\<^verbatim>\<open>ipc/runner.ipc.ts\<close>)\<close>

datatype RunnerEventType =
    Run_started | Node_started | Node_completed | Node_error | Llm_chunk | Llm_tool_call
  | Tool_call_event | Tool_result | Requires_confirmation | Security_warning
  | Run_completed | Run_error

text \<open>The \<^verbatim>\<open>data\<close> of the events the runner emits.\<close>

datatype event_data =
    Started_data string string
  | Message_data string
  | Chunk_data string
  | Completed_data string string
  | Result_data string
  | Error_data string

record RunnerEvent =
  ev_type :: RunnerEventType
  ev_runId :: string
  timestamp :: string
  nodeId :: "string option"
  ev_data :: event_data

text \<open>
  An entry of \<^verbatim>\<open>activeRuns\<close>. An \<^verbatim>\<open>AbortController\<close> is an address into the store of
  signals, since the entry and the running \<^verbatim>\<open>runAgent\<close> call share it. A confirmation
  resolver is a callback; the state records each call of one.
\<close>

record active_run =
  abortController :: nat
  confirmations :: "(string \<times> nat) list"

text \<open>
  A call of \<^verbatim>\<open>runAgent\<close> suspended at the \<^verbatim>\<open>await\<close> of its streaming loop: its parameters,
  the response text and the characters the loop has still to visit.
\<close>

record task =
  task_agent :: AgentDefinition
  task_userMessage :: string
  task_runId :: string
  task_agentId :: string
  task_controller :: nat
  responseText :: string
  remaining :: string

record runner =
  activeRuns :: "string \<rightharpoonup> active_run"
  aborted :: "nat \<Rightarrow> bool"
  controllers :: nat
  tasks :: "task list"
  emitted :: "RunnerEvent list"
  resolver_calls :: "(nat \<times> string) list"
  db_handle :: "database option"

text \<open>
  \<^verbatim>\<open>emitToRenderer\<close> sends an event to the windows; \<^verbatim>\<open>emitted\<close> is what has been sent, in
  order. Every handler and every resumption of a suspended call runs to its end before the
  next one starts; \<^verbatim>\<open>now\<close> is the reading of the clock while it runs.
\<close>

definition emitToRenderer :: "RunnerEvent \<Rightarrow> runner \<Rightarrow> runner" where
  "emitToRenderer event s = s\<lparr>emitted := emitted s @ [event]\<rparr>"

text \<open>The audit write of a run, made when the agent has auditing enabled.\<close>

definition audit_if_enabled ::
  "(rat \<Rightarrow> string) \<Rightarrow> string \<Rightarrow> AgentDefinition \<Rightarrow> AuditLogEntry \<Rightarrow> runner \<Rightarrow> exn + runner" where
  "audit_if_enabled ns now agent entry s =
     (if auditEnabled agent then
        (case appendAuditLog ns now (db_handle s) entry of
           Inl e \<Rightarrow> Inl e
         | Inr db' \<Rightarrow> Inr (s\<lparr>db_handle := db'\<rparr>))
      else Inr s)"

text \<open>
  The handler given to \<^verbatim>\<open>.catch\<close> on the promise of \<^verbatim>\<open>runAgent\<close>. It runs as a microtask
  right after the rejection, before any other handler.
\<close>

definition run_failed :: "string \<Rightarrow> string \<Rightarrow> exn \<Rightarrow> runner \<Rightarrow> runner" where
  "run_failed now rid runErr s =
     (let s1 = emitToRenderer \<lparr>ev_type = Run_error, ev_runId = rid, timestamp = now, nodeId = None,
                  ev_data = Error_data (String_of runErr)\<rparr> s
      in s1\<lparr>activeRuns := (activeRuns s1)(rid := None)\<rparr>)"

text \<open>
  The end of \<^verbatim>\<open>runAgent\<close> after its loop: the two completion events, the audit write, and
  the \<^verbatim>\<open>finally\<close> block. An exception of the audit write passes the \<^verbatim>\<open>finally\<close> block and
  rejects the promise.
\<close>

definition finish_run :: "(rat \<Rightarrow> string) \<Rightarrow> string \<Rightarrow> task \<Rightarrow> runner \<Rightarrow> runner" where
  "finish_run ns now t s =
     (let rid = task_runId t;
          s1 = emitToRenderer \<lparr>ev_type = Node_completed, ev_runId = rid, timestamp = now,
                  nodeId = Some ''node-llm'',
                  ev_data = Completed_data ''llmResponse'' (responseText t)\<rparr> s;
          s2 = emitToRenderer \<lparr>ev_type = Run_completed, ev_runId = rid, timestamp = now,
                  nodeId = None, ev_data = Result_data (responseText t)\<rparr> s1
      in (case audit_if_enabled ns now (task_agent t)
                 \<lparr>agentId = task_agentId t, runId = rid, eventType = ''run-completed'', tool = None,
                  payload = None, outcome = Outcome_success, error = None\<rparr> s2 of
            Inl e \<Rightarrow> run_failed now rid e (s2\<lparr>activeRuns := (activeRuns s2)(rid := None)\<rparr>)
          | Inr s3 \<Rightarrow> s3\<lparr>activeRuns := (activeRuns s3)(rid := None)\<rparr>))"

text \<open>
  One turn of the streaming loop, up to the next \<^verbatim>\<open>await\<close> or to the end of \<^verbatim>\<open>runAgent\<close>:
  the loop tests the signal before each character and leaves with \<^verbatim>\<open>break\<close> when it is
  aborted.
\<close>

definition stream_step :: "(rat \<Rightarrow> string) \<Rightarrow> string \<Rightarrow> task \<Rightarrow> runner \<Rightarrow> runner" where
  "stream_step ns now t s = (case remaining t of
      [] \<Rightarrow> finish_run ns now t s
    | c # cs \<Rightarrow>
        if aborted s (task_controller t) then finish_run ns now t s
        else (let s1 = emitToRenderer \<lparr>ev_type = Llm_chunk, ev_runId = task_runId t, timestamp = now,
                            nodeId = Some ''node-llm'', ev_data = Chunk_data [c]\<rparr> s
              in s1\<lparr>tasks := tasks s1 @ [t\<lparr>remaining := cs\<rparr>]\<rparr>))"

text \<open>The timer of the \<^verbatim>\<open>k\<close>-th suspended call fires and the call goes on.\<close>

definition resume :: "(rat \<Rightarrow> string) \<Rightarrow> string \<Rightarrow> nat \<Rightarrow> runner \<Rightarrow> runner" where
  "resume ns now k s =
     (if k < length (tasks s)
      then stream_step ns now (tasks s ! k) (s\<lparr>tasks := take k (tasks s) @ drop (Suc k) (tasks s)\<rparr>)
      else s)"

definition response_text :: "AgentDefinition \<Rightarrow> string \<Rightarrow> string" where
  "response_text agent userMessage =
     ''[Agent '' @ [CHR 0x22] @ name agent @ [CHR 0x22]
     @ '' received your message. LLM integration coming in Phase 3.]'' @ [CHR 0x0A, CHR 0x0A]
     @ ''Your message: '' @ userMessage"

text \<open>\<^verbatim>\<open>runAgent\<close> from its call to its first \<^verbatim>\<open>await\<close>.\<close>

definition runAgent ::
  "(rat \<Rightarrow> string) \<Rightarrow> string \<Rightarrow> AgentDefinition \<Rightarrow> string \<Rightarrow> string \<Rightarrow> string \<Rightarrow> nat \<Rightarrow> runner \<Rightarrow> runner" where
  "runAgent ns now agent userMessage rid aid controller s =
     (let s1 = emitToRenderer \<lparr>ev_type = Node_started, ev_runId = rid, timestamp = now,
                  nodeId = Some ''node-llm'',
                  ev_data = Message_data (''Processing: '' @ userMessage)\<rparr> s
      in if aborted s1 controller
         then run_failed now rid (Error ''Run aborted by user'')
                (s1\<lparr>activeRuns := (activeRuns s1)(rid := None)\<rparr>)
         else stream_step ns now
                \<lparr>task_agent = agent, task_userMessage = userMessage, task_runId = rid,
                 task_agentId = aid, task_controller = controller,
                 responseText = response_text agent userMessage,
                 remaining = response_text agent userMessage\<rparr> s1)"

datatype runner_reply = Started string | Stopped | Confirmed

definition RUNNER_START ::
  "zod \<Rightarrow> (rat \<Rightarrow> string) \<Rightarrow> string \<Rightarrow> runner \<Rightarrow> string \<Rightarrow> string \<Rightarrow> string
   \<Rightarrow> runner_reply IpcResponse \<times> runner" where
  "RUNNER_START z ns now s aid userMessage rid = (case getAgent z (db_handle s) aid of
      Inl e \<Rightarrow> (err (String_of e), s)
    | Inr None \<Rightarrow> (err ''Agent not found'', s)
    | Inr (Some agent) \<Rightarrow>
        (let c = controllers s;
             s1 = s\<lparr>controllers := Suc c, aborted := (aborted s)(c := False),
                    activeRuns := (activeRuns s)(rid \<mapsto> \<lparr>abortController = c, confirmations = []\<rparr>)\<rparr>;
             s2 = emitToRenderer \<lparr>ev_type = Run_started, ev_runId = rid, timestamp = now,
                     nodeId = None, ev_data = Started_data aid (name agent)\<rparr> s1
         in (case audit_if_enabled ns now agent
                    \<lparr>agentId = aid, runId = rid, eventType = ''run-started'', tool = None,
                     payload = Some (Serializable (JObj [(''userMessage'', JStr (take 200 userMessage))])),
                     outcome = Outcome_success, error = None\<rparr> s2 of
               Inl e \<Rightarrow> (err (String_of e), s2)
             | Inr s3 \<Rightarrow> (ok (Started rid), runAgent ns now agent userMessage rid aid c s3))))"

definition RUNNER_STOP :: "runner \<Rightarrow> string \<Rightarrow> runner_reply IpcResponse \<times> runner" where
  "RUNNER_STOP s rid = (case activeRuns s rid of
      None \<Rightarrow> (err ''Run not found or already completed'', s)
    | Some run \<Rightarrow> (ok Stopped,
        s\<lparr>aborted := (aborted s)(abortController run := True),
          activeRuns := (activeRuns s)(rid := None)\<rparr>))"

definition RUNNER_CONFIRM :: "runner \<Rightarrow> string \<Rightarrow> string \<Rightarrow> string \<Rightarrow> runner_reply IpcResponse \<times> runner" where
  "RUNNER_CONFIRM s rid confirmationId decision = (case activeRuns s rid of
      None \<Rightarrow> (err ''Run not found'', s)
    | Some run \<Rightarrow> (case map_of (confirmations run) confirmationId of
        None \<Rightarrow> (err ''Confirmation not found'', s)
      | Some resolver \<Rightarrow> (ok Confirmed,
          s\<lparr>resolver_calls := resolver_calls s @ [(resolver, decision)],
            activeRuns := (activeRuns s)(rid \<mapsto>
              run\<lparr>confirmations := AList.delete confirmationId (confirmations run)\<rparr>)\<rparr>)))"

text \<open>The events a step has added.\<close>

definition new_events :: "runner \<Rightarrow> runner \<Rightarrow> RunnerEvent list" where
  "new_events s s' = drop (length (emitted s)) (emitted s')"

definition idle_runner :: "database option \<Rightarrow> runner" where
  "idle_runner d = \<lparr>activeRuns = Map.empty, aborted = (\<lambda>_. False), controllers = 0, tasks = [],
     emitted = [], resolver_calls = [], db_handle = d\<rparr>"

text \<open>
  The state in which no run holds a confirmation. It is the only kind of state the handlers
  and \<^verbatim>\<open>runAgent\<close> produce: an entry of \<^verbatim>\<open>activeRuns\<close> starts with an empty map and no code
  adds a resolver to one.
\<close>

definition no_confirmations :: "runner \<Rightarrow> bool" where
  "no_confirmations s = (\<forall>rid run. activeRuns s rid = Some run \<longrightarrow> confirmations run = [])"

section \<open>The policy evaluator\<close>

text \<open>
  Modelled from the spec: the Policy Evaluator, \<^verbatim>\<open>evaluate(request, policy)\<close>, with its
  \<^verbatim>\<open>ActionRequest\<close> and \<^verbatim>\<open>Verdict\<close>. The repository declares the permission model
  (\<^verbatim>\<open>ToolPermissionsSchema\<close>, above) but holds no function that evaluates a request against
  it, so the rules are those of the specification, in its order: the \<^verbatim>\<open>enabled\<close> flag of the
  relevant sub-policy first, then the rules of the tool. Glob and regular-expression matching
  and the test for a private, loopback or link-local host are parameters, and so is the
  number of requests counted in the current rate-limit window.
\<close>

datatype fs_operation = ReadFile | WriteFile | ListDir

datatype ActionRequest =
    FilesystemRequest fs_operation string nat
  | HttpRequest string http_method
  | ShellRequest string
  | CodeExecRequest

datatype Verdict = Allow | Deny string | RequireConfirmation string

record matchers =
  glob_match :: "string \<Rightarrow> string \<Rightarrow> bool"
  regex_match :: "string \<Rightarrow> string \<Rightarrow> bool"
  is_private_host :: "string \<Rightarrow> bool"

text \<open>Modelled from the spec: the filesystem rules of the evaluator: a deny-glob wins over an allow-glob, a write needs \<^verbatim>\<open>read-write\<close> access, and the file size is held against \<^verbatim>\<open>maxFileSizeBytes\<close>.\<close>

definition evaluate_filesystem ::
  "matchers \<Rightarrow> fs_operation \<Rightarrow> string \<Rightarrow> nat \<Rightarrow> FileSystemPermission \<Rightarrow> Verdict" where
  "evaluate_filesystem m operation path bytes p =
     (if \<not> filesystem_enabled p then Deny ''tool disabled''
      else if list_ex (\<lambda>g. glob_match m g path) (deniedPaths p) then Deny ''path denied''
      else if \<not> list_ex (\<lambda>g. glob_match m g path) (allowedPaths p) then Deny ''path not allowed''
      else if operation = WriteFile \<and> access p \<noteq> ReadWrite then Deny ''read-only access''
      else if maxFileSizeBytes p < of_nat bytes then Deny ''file too large''
      else Allow)"

text \<open>Modelled from the spec: the HTTP rules of the evaluator: a private host is refused whatever the domain lists say, a blocked domain wins over an allowed one, the method must be allowed, and the request count is held against the ceiling per minute.\<close>

definition evaluate_http ::
  "matchers \<Rightarrow> nat \<Rightarrow> string \<Rightarrow> http_method \<Rightarrow> HttpPermission \<Rightarrow> Verdict" where
  "evaluate_http m requests host method p =
     (if \<not> http_enabled p then Deny ''tool disabled''
      else if is_private_host m host then Deny ''SSRF blocked''
      else if list_ex (\<lambda>g. glob_match m g host) (blockedDomains p) then Deny ''domain blocked''
      else if \<not> list_ex (\<lambda>g. glob_match m g host) (allowedDomains p) then Deny ''domain not allowed''
      else if method \<notin> set (allowedMethods p) then Deny ''method not allowed''
      else if rateLimitPerMinute p \<le> of_nat requests then Deny ''rate limit''
      else Allow)"

text \<open>Modelled from the spec: the shell rules of the evaluator: the first token of the command line must be an allowed command, a blocked pattern wins over it, and an allowed command asks for confirmation when the policy requires one.\<close>

definition evaluate_shell :: "matchers \<Rightarrow> string \<Rightarrow> ShellPermission \<Rightarrow> Verdict" where
  "evaluate_shell m command p =
     (if \<not> shell_enabled p then Deny ''tool disabled''
      else if takeWhile (\<lambda>c. c \<noteq> CHR '' '') command \<notin> set (allowedCommands p)
        then Deny ''command not allowed''
      else if list_ex (\<lambda>r. regex_match m r command) (blockedPatterns p) then Deny ''blocked pattern''
      else if requiresConfirmation p then RequireConfirmation command
      else Allow)"

text \<open>Modelled from the spec: the code-execution rule of the evaluator, which only gates whether the sandbox is created.\<close>

definition evaluate_codeExec :: "CodeExecPermission \<Rightarrow> Verdict" where
  "evaluate_codeExec p = (if \<not> codeExec_enabled p then Deny ''tool disabled'' else Allow)"

text \<open>Modelled from the spec: \<^verbatim>\<open>evaluate(request, policy)\<close>, which hands the request to the rules of its kind.\<close>

fun evaluate :: "matchers \<Rightarrow> nat \<Rightarrow> ActionRequest \<Rightarrow> ToolPermissions \<Rightarrow> Verdict" where
  "evaluate m requests (FilesystemRequest operation path bytes) policy =
     evaluate_filesystem m operation path bytes (filesystem policy)"
| "evaluate m requests (HttpRequest host method) policy =
     evaluate_http m requests host method (http policy)"
| "evaluate m requests (ShellRequest command) policy = evaluate_shell m command (shell policy)"
| "evaluate m requests CodeExecRequest policy = evaluate_codeExec (codeExec policy)"

text \<open>Matchers for the examples: a pattern matches the text equal to it, no host is private.\<close>

definition literal_matchers :: matchers where
  "literal_matchers = \<lparr>glob_match = (\<lambda>g s. g = s), regex_match = (\<lambda>r s. r = s),
     is_private_host = (\<lambda>h. False)\<rparr>"

section \<open>Example data\<close>

text \<open>
  A stand-in for zod's own checks: a UUID and an ISO timestamp are matched against a
  template (\<^verbatim>\<open>x\<close> a hexadecimal digit, \<^verbatim>\<open>d\<close> a decimal digit, any other character itself),
  a URL by its scheme.
\<close>

definition is_digit :: "char \<Rightarrow> bool" where
  "is_digit c = (let n = (of_char c :: nat) in 48 \<le> n \<and> n \<le> 57)"

definition is_hex :: "char \<Rightarrow> bool" where
  "is_hex c = (let n = (of_char c :: nat) in is_digit c \<or> (97 \<le> n \<and> n \<le> 102) \<or> (65 \<le> n \<and> n \<le> 70))"

definition matches_template :: "string \<Rightarrow> string \<Rightarrow> bool" where
  "matches_template t s = (length s = length t \<and>
     list_all (\<lambda>(p, c). if p = CHR ''x'' then is_hex c else if p = CHR ''d'' then is_digit c else c = p)
       (zip t s))"

definition example_zod :: zod where
  "example_zod = \<lparr>
     uuid = matches_template ''xxxxxxxx-xxxx-xxxx-xxxx-xxxxxxxxxxxx'',
     datetime = matches_template ''dddd-dd-ddTdd:dd:dd.dddZ'',
     url = (\<lambda>s. startsWith s ''http://'' \<or> startsWith s ''https://'')\<rparr>"

definition example_agent :: AgentDefinition where
  "example_agent = \<lparr>
     id' = ''7c9e6679-7425-40de-944b-e07fc1f90ae7'',
     version = 1,
     name = ''Helper'',
     description = [],
     createdAt = ''2024-01-01T00:00:00.000Z'',
     updatedAt = ''2024-01-01T00:00:00.000Z'',
     provider = AnthropicProvider ''claude-opus-4-6'' ''anthropic-key'' 4096 (7 / 10),
     systemPrompt = ''You are a helpful AI assistant.'',
     graph = createDefaultGraph,
     codeBlocks = [],
     permissions = DEFAULT_TOOL_PERMISSIONS,
     tags = [],
     auditEnabled = True\<rparr>"

definition example_db :: "database option" where
  "example_db = Some (empty_db\<lparr>agents := [agentToRow example_agent]\<rparr>)"

definition example_updates :: AgentUpdates where
  "example_updates = \<lparr>
     upd_id = Some ''00000000-0000-4000-8000-000000000000'',
     upd_version = Some 7,
     upd_name = Some ''Renamed'',
     upd_description = None,
     upd_createdAt = None,
     upd_updatedAt = Some ''1999-12-31T23:59:59.000Z'',
     upd_provider = None,
     upd_systemPrompt = None,
     upd_graph = None,
     upd_codeBlocks = None,
     upd_permissions = None,
     upd_tags = None,
     upd_auditEnabled = None\<rparr>"

text \<open>The example database on a medium that refuses writes.\<close>

definition faulty_db :: "database option" where
  "faulty_db = Some (empty_db\<lparr>agents := [agentToRow example_agent],
     write_fault := Some (SqliteError ''database or disk is full'')\<rparr>)"

text \<open>
  A run of the example agent: started, and stopped while its loop waits for the timer
  after the first character.
\<close>

definition started_run :: runner where
  "started_run = snd (RUNNER_START example_zod (\<lambda>r. ''0'') ''2025-06-01T12:00:00.000Z''
     (idle_runner example_db) ''7c9e6679-7425-40de-944b-e07fc1f90ae7'' ''hi'' ''run-1'')"

definition stopped_run :: runner where
  "stopped_run = snd (RUNNER_STOP started_run ''run-1'')"

text \<open>
  An agent as the renderer creates one, \<^verbatim>\<open>createAgent('Helper')\<close> on an empty database:
  the agent returned and the database after the call.
\<close>

definition created_agent :: AgentDefinition where
  "created_agent = \<lparr>
     id' = ''7c9e6679-7425-40de-944b-e07fc1f90ae7'',
     version = 1,
     name = ''Helper'',
     description = [],
     createdAt = ''2024-01-01T00:00:00.000Z'',
     updatedAt = ''2024-01-01T00:00:00.000Z'',
     provider = AnthropicProvider ''claude-opus-4-6'' [] 4096 (7 / 10),
     systemPrompt = ''You are a helpful AI assistant.'',
     graph = createDefaultGraph,
     codeBlocks = [],
     permissions = DEFAULT_TOOL_PERMISSIONS,
     tags = [],
     auditEnabled = True\<rparr>"

definition created_db :: "database option" where
  "created_db = Some (empty_db\<lparr>agents := [agentToRow created_agent]\<rparr>)"

text \<open>A call of \<^verbatim>\<open>runAgent\<close> for the example agent whose loop has visited every character.\<close>

definition streamed_task :: task where
  "streamed_task = \<lparr>task_agent = example_agent, task_userMessage = ''hi'', task_runId = ''run-1'',
     task_agentId = ''7c9e6679-7425-40de-944b-e07fc1f90ae7'', task_controller = 0,
     responseText = response_text example_agent ''hi'', remaining = []\<rparr>"

section \<open>Properties\<close>

subsection \<open>Secrets\<close>

lemma getSecret_setSecret_plain:
  assumes "\<not> isEncryptionAvailable ss" and "setSecret ss db key v = Inr db'"
  shows "getSecret ss db' key = Inr (Some v)"
  using assms
  by (auto simp: setSecret_def getSecret_def dbSet_def dbGet_def getDb_def startsWith_def
      split: option.splits sum.splits)

lemma getSecret_setSecret_encrypted:
  assumes "isEncryptionAvailable ss" and "setSecret ss db key v = Inr db'"
    and "encryptString ss v \<noteq> []" and "decryptString ss (encryptString ss v) = Some v"
    and "\<not> startsWith (encryptString ss v) ''PLAIN:''"
  shows "getSecret ss db' key = Inr (Some v)"
  using assms
  by (auto simp: setSecret_def getSecret_def dbSet_def dbGet_def getDb_def
      split: option.splits sum.splits)

text \<open>
  C6. The response to a secret lookup carries the existence flag and nothing else: whenever
  two databases hold secrets under the key, whatever their values, the two responses are the
  same value \<^verbatim>\<open>{ ok: true, data: { exists: true } }\<close>.
\<close>

theorem secret_lookup_reveals_only_existence:
  assumes "getSecret ss db1 key = Inr (Some v1)" and "getSecret ss db2 key = Inr (Some v2)"
  shows "SETTINGS_GET_SECRET ss db1 key = SETTINGS_GET_SECRET ss db2 key
       \<and> SETTINGS_GET_SECRET ss db1 key = ok \<lparr>exists = True\<rparr>"
  using assms by (simp add: SETTINGS_GET_SECRET_def)

theorem secret_lookup_witness:
  "getSecret plain_storage (db_with_secret ''sk-live-A'') ''openai'' = Inr (Some ''sk-live-A'')
 \<and> getSecret plain_storage (db_with_secret ''another-value'') ''openai'' = Inr (Some ''another-value'')
 \<and> SETTINGS_GET_SECRET plain_storage (db_with_secret ''sk-live-A'') ''openai''
     = SETTINGS_GET_SECRET plain_storage (db_with_secret ''another-value'') ''openai''
 \<and> SETTINGS_GET_SECRET plain_storage (db_with_secret ''sk-live-A'') ''openai'' = ok \<lparr>exists = True\<rparr>"
proof -
  have a: "getSecret plain_storage (db_with_secret ''sk-live-A'') ''openai'' = Inr (Some ''sk-live-A'')"
    by (simp add: getSecret_def dbGet_def getDb_def db_with_secret_def SECRET_PREFIX_def
        startsWith_def plain_storage_def empty_db_def)
  have b: "getSecret plain_storage (db_with_secret ''another-value'') ''openai'' = Inr (Some ''another-value'')"
    by (simp add: getSecret_def dbGet_def getDb_def db_with_secret_def SECRET_PREFIX_def
        startsWith_def plain_storage_def empty_db_def)
  from secret_lookup_reveals_only_existence [OF a b] a b show ?thesis by blast
qed

text \<open>Without a stored value the flag is \<^verbatim>\<open>false\<close>; a closed database gives the fixed error text.\<close>

lemma secret_lookup_absent:
  "getSecret ss db key = Inr None \<Longrightarrow> SETTINGS_GET_SECRET ss db key = ok \<lparr>exists = False\<rparr>"
  by (simp add: SETTINGS_GET_SECRET_def)

lemma secret_lookup_closed_db:
  "SETTINGS_GET_SECRET ss None key = err ''Error: Database not initialized. Call initDb() first.''"
  by (simp add: SETTINGS_GET_SECRET_def getSecret_def dbGet_def getDb_def)

subsection \<open>The audit log\<close>

lemma payloadStr_capped: "payloadStr ns p = Some s \<Longrightarrow> length s \<le> 10014"
  by (auto simp: payloadStr_def split: option.splits if_splits sum.splits)

lemma payloadStr_verbatim:
  "JSON_stringify ns v = Inr (Some s) \<Longrightarrow> length s \<le> 10000 \<Longrightarrow> payloadStr ns (Some v) = Some s"
  by (simp add: payloadStr_def)

lemma appendAuditLog_only_appends:
  "appendAuditLog ns now db entry = Inr db' \<Longrightarrow>
   \<exists>d d' r. db = Some d \<and> db' = Some d' \<and> audit_log d' = audit_log d @ [r]"
  by (auto simp: appendAuditLog_def getDb_def split: option.splits sum.splits)

text \<open>The two statements that delete rows leave every remaining row as it was.\<close>

lemma clearAuditLog_only_deletes:
  "clearAuditLog (Some d) a = Inr (Some d') \<Longrightarrow> set (audit_log d') \<subseteq> set (audit_log d)"
  by (auto simp: clearAuditLog_def getDb_def split: option.splits if_splits)

lemma pruneAuditLog_only_deletes:
  "pruneAuditLog expired (Some d) = Inr (Some d') \<Longrightarrow> set (audit_log d') \<subseteq> set (audit_log d)"
  by (auto simp: pruneAuditLog_def getDb_def split: option.splits)

text \<open>
  C8. The stored payload is capped in size (\<open>payloadStr_capped\<close>) and no statement of
  the repository changes a row once it is there (\<open>appendAuditLog_only_appends\<close>,
  \<open>clearAuditLog_only_deletes\<close>, \<open>pruneAuditLog_only_deletes\<close>), but nothing is stripped from a
  payload: one that carries a secret is stored with the secret in it. Here the user message
  of a \<^verbatim>\<open>run-started\<close> entry holds an API key, and the row's payload is the full JSON text.
\<close>

theorem appendAuditLog_stores_secret_verbatim:
  "appendAuditLog ns now (Some empty_db)
     \<lparr>agentId = ''agent-1'', runId = ''run-1'', eventType = ''run-started'', tool = None,
      payload = Some (Serializable (JObj [(''userMessage'', JStr ''my key is sk-ant-api03-SECRET'')])),
      outcome = Outcome_success, error = None\<rparr>
   = Inr (Some (empty_db\<lparr>
       audit_log := [\<lparr>audit_id = 1, ts = now, agent_id = ''agent-1'', run_id = ''run-1'',
         event_type = ''run-started'', tool_col = None,
         payload_col = Some (''{'' @ [CHR 0x22] @ ''userMessage'' @ [CHR 0x22] @ '':'' @ [CHR 0x22]
                             @ ''my key is sk-ant-api03-SECRET'' @ [CHR 0x22] @ ''}''),
         outcome_col = ''success'', error_col = None\<rparr>],
       audit_seq := 1\<rparr>))"
  by (simp add: appendAuditLog_def getDb_def empty_db_def payloadStr_def quote_def quote_char_def)

subsection \<open>The sandbox\<close>

text \<open>
  \<^verbatim>\<open>runCodeBlock\<close> returns a result on every path: a failed result always carries a message,
  and a fault of the host or of the engine is a failed result.
\<close>

lemma runCodeBlock_failure_has_message:
  "\<not> success (fst (runCodeBlock q c input limits)) \<Longrightarrow>
   sandbox_error (fst (runCodeBlock q c input limits)) \<noteq> None"
  by (auto simp: runCodeBlock_def truthy_def Let_def split: option.splits prod.splits sum.splits if_splits)

lemma runCodeBlock_host_fault:
  "import_fault q \<noteq> None \<or> newContext_fault q \<noteq> None \<or> evalCode_fault q \<noteq> None \<or> dispose_fault q \<noteq> None
   \<or> input = Circular \<Longrightarrow>
   \<not> success (fst (runCodeBlock q c input limits))"
  by (auto simp: runCodeBlock_def run_in_vm_def Let_def split: option.splits prod.splits sum.splits if_splits)

lemma runCodeBlock_spin_times_out:
  assumes "import_fault q = None" "newContext_fault q = None" "evalCode_fault q = None"
    "dispose_fault q = None" "input \<noteq> Circular"
  shows "fst (runCodeBlock q (Script (SSpin # stmts) decl) input limits)
     = \<lparr>success = False, result = None,
        sandbox_error = Some (''Execution timed out after '' @ number_text q (timeLimitMs limits) @ ''ms''),
        timedOut = Some True\<rparr>"
  using assms by (cases input) (simp_all add: runCodeBlock_def run_in_vm_def evalCode_def Let_def)



text \<open>
  C3. A failure of the user's code is not always returned as \<^verbatim>\<open>{success: false, error}\<close>:
  the code \<^verbatim>\<open>throw ''\<close> makes \<^verbatim>\<open>runError\<close> the empty string, which the test
  \<^verbatim>\<open>if (runError)\<close> takes for no error, and the call returns \<^verbatim>\<open>{success: true, result: undefined}\<close>.
\<close>

theorem runCodeBlock_empty_string_throw_reported_as_success:
  "runCodeBlock healthy_quickjs (Script [SThrow (VJson (JStr ''''))] None) (Serializable JNull) default_limits
   = (\<lparr>success = True, result = Some Undefined, sandbox_error = None, timedOut = None\<rparr>, [])"
  by (simp add: runCodeBlock_def run_in_vm_def evalCode_def healthy_quickjs_def dump_def
      runError_of_def truthy_def)

text \<open>The same happens for \<^verbatim>\<open>throw undefined\<close>, where \<^verbatim>\<open>JSON.stringify\<close> yields \<^verbatim>\<open>undefined\<close>.\<close>

lemma runCodeBlock_undefined_throw_reported_as_success:
  "runCodeBlock healthy_quickjs (Script [SThrow VUndefined] None) (Serializable JNull) default_limits
   = (\<lparr>success = True, result = Some Undefined, sandbox_error = None, timedOut = None\<rparr>, [])"
  by (simp add: runCodeBlock_def run_in_vm_def evalCode_def healthy_quickjs_def dump_def
      runError_of_def truthy_def)


text \<open>
  A \<^verbatim>\<open>return\<close> at the top level of the code leaves the harness function before the test:
  the code \<^verbatim>\<open>return 5\<close>, which defines no \<^verbatim>\<open>run\<close>, gives \<^verbatim>\<open>{success: true, result: 5}\<close>.
\<close>

lemma top_level_return_skips_entry_check:
  "runCodeBlock healthy_quickjs (Script [SReturn (Const (VJson (JNum 5)))] None) (Serializable JNull)
     default_limits
   = (\<lparr>success = True, result = Some (Value (JNum 5)), sandbox_error = None, timedOut = None\<rparr>, [])"
  by (simp add: runCodeBlock_def run_in_vm_def evalCode_def healthy_quickjs_def dump_def
      runError_of_def truthy_def)

text \<open>
  A class named \<^verbatim>\<open>run\<close> passes the test \<^verbatim>\<open>typeof run !== 'function'\<close>, and the failure
  returned is the engine's refusal to call it, not the missing-function error.
\<close>

lemma class_run_passes_entry_check:
  "fst (runCodeBlock healthy_quickjs (Script [] (Some RunClass)) (Serializable JNull) default_limits)
   = \<lparr>success = False, result = None,
      sandbox_error = runError_of healthy_quickjs (dump healthy_quickjs class_call_error),
      timedOut = None\<rparr>
   \<and> dump healthy_quickjs class_call_error \<noteq> dump healthy_quickjs no_run_error"
  by (simp add: runCodeBlock_def run_in_vm_def evalCode_def healthy_quickjs_def dump_def
      runError_of_def truthy_def class_call_error_def no_run_error_def)



subsection \<open>A schema parses what it has produced\<close>

lemma parse_all_again:
  assumes "\<And>j a. p (Some j) = Some a \<Longrightarrow> p (Some (e a)) = Some a"
    and "parse_all p js = Some xs"
  shows "parse_all p (map e xs) = Some xs"
  using assms(2)
proof (induction js arbitrary: xs)
  case Nil
  then show ?case by simp
next
  case (Cons j js)
  then show ?case by (auto simp: bind_eq_Some_conv assms(1))
qed

lemma z_array_again:
  assumes "\<And>j a. p (Some j) = Some a \<Longrightarrow> p (Some (e a)) = Some a"
    and "z_array p y = Some xs"
  shows "z_array p (Some (JArr (map e xs))) = Some xs"
  using assms(2) parse_all_again [of p e, OF assms(1)]
  by (auto simp: z_array_def split: option.splits json.splits)

lemma z_default_Some [simp]: "z_default d p (Some j) = p (Some j)"
  by (simp add: z_default_def)

lemma z_default_again:
  assumes "\<And>j a. p (Some j) = Some a \<Longrightarrow> p (Some (e a)) = Some a"
    and "z_default d p y = Some a"
  shows "p (Some (e a)) = Some a"
  using assms by (auto simp: z_default_def split: option.splits)

lemma z_boolean_again: "z_boolean y = Some b \<Longrightarrow> z_boolean (Some (JBool b)) = Some b"
  by (simp add: z_boolean_def)

lemma z_string_again: "z_string y = Some s \<Longrightarrow> z_string (Some (JStr s)) = Some s"
  by (simp add: z_string_def)

lemma z_string_where_again: "z_string_where P y = Some s \<Longrightarrow> z_string_where P (Some (JStr s)) = Some s"
  by (auto simp: z_string_where_def z_string_def bind_eq_Some_conv split: if_splits)

lemma z_int_positive_again: "z_int_positive y = Some r \<Longrightarrow> z_int_positive (Some (JNum r)) = Some r"
  by (auto simp: z_int_positive_def z_number_def bind_eq_Some_conv split: if_splits)

lemma z_number_again: "z_number y = Some r \<Longrightarrow> z_number (Some (JNum r)) = Some r"
  by (auto simp: z_number_def)

lemma z_temperature_again: "z_temperature y = Some r \<Longrightarrow> z_temperature (Some (JNum r)) = Some r"
  by (auto simp: z_temperature_def z_number_def bind_eq_Some_conv split: if_splits)

lemma z_access_again: "z_access y = Some a \<Longrightarrow> z_access (Some (JStr (access_text a))) = Some a"
  by (cases a) (auto simp: z_access_def z_string_def)

lemma z_method_again: "z_method y = Some m \<Longrightarrow> z_method (Some ((JStr \<circ> method_text) m)) = Some m"
  by (cases m) (auto simp: z_method_def z_string_def)

lemma NodeTypeSchema_again: "NodeTypeSchema y = Some t \<Longrightarrow> NodeTypeSchema (Some (JStr (NodeType_text t))) = Some t"
  by (cases t) (auto simp: NodeTypeSchema_def z_string_def)

lemma z_strings_again:
  "z_default d (z_array z_string) y = Some xs \<Longrightarrow> z_array z_string (Some (JArr (map JStr xs))) = Some xs"
  by (rule z_default_again [where e = "\<lambda>xs. JArr (map JStr xs)"])
     (auto intro: z_array_again z_string_again)

lemma z_object_JObj [simp]: "z_object (Some (JObj ms)) = Some (map_of ms)"
  by (simp add: z_object_def)

lemma dflt_boolean: "z_default d z_boolean y = Some b \<Longrightarrow> z_boolean (Some (JBool b)) = Some b"
  by (simp add: z_boolean_def)
lemma dflt_int: "z_default d z_int_positive y = Some r \<Longrightarrow> z_int_positive (Some (JNum r)) = Some r"
  by (auto simp: z_default_def intro: z_int_positive_again)
lemma dflt_methods:
  "z_default d (z_array z_method) y = Some xs \<Longrightarrow> z_array z_method (Some (JArr (map (JStr \<circ> method_text) xs))) = Some xs"
  by (rule z_default_again [where e = "\<lambda>xs. JArr (map (JStr \<circ> method_text) xs)"])
     (auto intro: z_array_again z_method_again)

lemmas dflt = dflt_boolean dflt_int z_strings_again dflt_methods

lemma HttpPermissionSchema_again:
  assumes "HttpPermissionSchema y = Some p"
  shows "HttpPermissionSchema (Some (json_HttpPermission p)) = Some p"
  using assms
  by (auto simp: HttpPermissionSchema_def json_HttpPermission_def bind_eq_Some_conv dest!: dflt)

lemma parse_members_again:
  assumes "\<And>j a. p (Some j) = Some a \<Longrightarrow> p (Some (e a)) = Some a"
    and "parse_members p ms = Some xs"
  shows "parse_members p (map (\<lambda>(k, v). (k, e v)) xs) = Some xs"
  using assms(2)
proof (induction ms arbitrary: xs)
  case Nil
  then show ?case by simp
next
  case (Cons m ms)
  then show ?case by (cases m) (auto simp: bind_eq_Some_conv assms(1))
qed

lemma z_record_again:
  assumes "\<And>j a. p (Some j) = Some a \<Longrightarrow> p (Some (e a)) = Some a"
    and "z_record p y = Some xs"
  shows "z_record p (Some (JObj (map (\<lambda>(k, v). (k, e v)) xs))) = Some xs"
  using assms(2) parse_members_again [of p e, OF assms(1)]
  by (auto simp: z_record_def split: option.splits json.splits)

lemma dflt_record_string:
  "z_default d (z_record z_string) y = Some xs \<Longrightarrow>
   z_record z_string (Some (JObj (map (\<lambda>(k, v). (k, JStr v)) xs))) = Some xs"
  by (rule z_default_again [where e = "\<lambda>xs. JObj (map (\<lambda>(k, v). (k, JStr v)) xs)"])
     (auto intro: z_record_again z_string_again)

lemma opt_string: "z_optional z_string y = Some (Some s) \<Longrightarrow> z_optional z_string (Some (JStr s)) = Some (Some s)"
  by (simp add: z_optional_def z_string_def)

lemma z_optional_None [simp]: "z_optional p None = Some None"
  by (simp add: z_optional_def)

lemma ShellPermissionSchema_again:
  assumes "ShellPermissionSchema y = Some p"
  shows "ShellPermissionSchema (Some (json_ShellPermission p)) = Some p"
  using assms
  by (cases "workingDirectory p")
     (auto simp: ShellPermissionSchema_def json_ShellPermission_def bind_eq_Some_conv opt_member_def
      dest!: dflt dflt_record_string opt_string)

lemma CodeExecPermissionSchema_again:
  assumes "CodeExecPermissionSchema y = Some p"
  shows "CodeExecPermissionSchema (Some (json_CodeExecPermission p)) = Some p"
  using assms
  by (auto simp: CodeExecPermissionSchema_def json_CodeExecPermission_def bind_eq_Some_conv dest!: dflt)

lemma dflt_access: "z_default d z_access y = Some a \<Longrightarrow> z_access (Some (JStr (access_text a))) = Some a"
  by (auto simp: z_default_def intro: z_access_again)

lemma FileSystemPermissionSchema_again:
  assumes "FileSystemPermissionSchema y = Some p"
  shows "FileSystemPermissionSchema (Some (json_FileSystemPermission p)) = Some p"
  using assms
  by (auto simp: FileSystemPermissionSchema_def json_FileSystemPermission_def bind_eq_Some_conv
      dest!: dflt dflt_access)


lemma dflt_filesystem:
  "z_default d FileSystemPermissionSchema y = Some p \<Longrightarrow>
   FileSystemPermissionSchema (Some (json_FileSystemPermission p)) = Some p"
  unfolding z_default_def by (rule FileSystemPermissionSchema_again)

lemma dflt_http:
  "z_default d HttpPermissionSchema y = Some p \<Longrightarrow>
   HttpPermissionSchema (Some (json_HttpPermission p)) = Some p"
  unfolding z_default_def by (rule HttpPermissionSchema_again)

lemma dflt_shell:
  "z_default d ShellPermissionSchema y = Some p \<Longrightarrow>
   ShellPermissionSchema (Some (json_ShellPermission p)) = Some p"
  unfolding z_default_def by (rule ShellPermissionSchema_again)

lemma dflt_codeExec:
  "z_default d CodeExecPermissionSchema y = Some p \<Longrightarrow>
   CodeExecPermissionSchema (Some (json_CodeExecPermission p)) = Some p"
  unfolding z_default_def by (rule CodeExecPermissionSchema_again)

lemma ToolPermissionsSchema_again:
  assumes "ToolPermissionsSchema y = Some p"
  shows "ToolPermissionsSchema (Some (json_ToolPermissions p)) = Some p"
  using assms
  by (auto simp: ToolPermissionsSchema_def json_ToolPermissions_def bind_eq_Some_conv
      dest!: dflt_filesystem dflt_http dflt_shell dflt_codeExec)

lemma dflt_string: "z_default d z_string y = Some s \<Longrightarrow> z_string (Some (JStr s)) = Some s"
  by (simp add: z_string_def)

lemma where_holds: "z_string_where P y = Some s \<Longrightarrow> P s"
  by (auto simp: z_string_where_def bind_eq_Some_conv split: if_splits)

lemma dflt_where_holds: "z_default d (z_string_where P) y = Some s \<Longrightarrow> P s"
  by (auto simp: z_default_def dest: where_holds)

lemma z_string_where_JStr [simp]: "z_string_where P (Some (JStr s)) = (if P s then Some s else None)"
  by (simp add: z_string_where_def z_string_def)

lemma dflt_temperature: "z_default d z_temperature y = Some r \<Longrightarrow> z_temperature (Some (JNum r)) = Some r"
  by (auto simp: z_default_def intro: z_temperature_again)

lemma opt_where: "z_optional (z_string_where P) y = Some (Some s) \<Longrightarrow> P s"
  by (auto simp: z_optional_def split: option.splits dest: where_holds)

lemma opt_headers:
  "z_optional (z_record z_string) y = Some (Some hs) \<Longrightarrow>
   z_record z_string (Some (json_headers hs)) = Some hs"
  by (auto simp: z_optional_def json_headers_def split: option.splits
      intro: z_record_again z_string_again)

lemma z_optional_Some [simp]: "z_optional p (Some j) = map_option Some (p (Some j))"
  by (simp add: z_optional_def)

lemma Anthropic_again:
  assumes "AnthropicProviderSchema f = Some p"
  shows "ProviderConfigSchema z (Some (json_ProviderConfig p)) = Some p"
  using assms
  by (auto simp: ProviderConfigSchema_def AnthropicProviderSchema_def bind_eq_Some_conv
      dest!: dflt dflt_string dflt_temperature where_holds)

lemma Ollama_again:
  assumes "OllamaProviderSchema z f = Some p"
  shows "ProviderConfigSchema z (Some (json_ProviderConfig p)) = Some p"
  using assms
  by (auto simp: ProviderConfigSchema_def OllamaProviderSchema_def bind_eq_Some_conv
      dest!: dflt dflt_string dflt_temperature dflt_where_holds)

lemma OpenAI_again:
  assumes "OpenAIProviderSchema z f = Some p"
  shows "ProviderConfigSchema z (Some (json_ProviderConfig p)) = Some p"
proof -
  from assms obtain mo ak bu mt te where p: "p = OpenAIProvider mo ak bu mt te"
    and h: "nonempty ak" "z_optional (z_string_where (url z)) (f ''baseUrl'') = Some bu"
      "z_int_positive (Some (JNum mt)) = Some mt" "z_temperature (Some (JNum te)) = Some te"
    by (auto simp: OpenAIProviderSchema_def bind_eq_Some_conv
        dest!: dflt dflt_string dflt_temperature where_holds)
  show ?thesis
  proof (cases bu)
    case None
    with p h show ?thesis
      by (simp add: ProviderConfigSchema_def OpenAIProviderSchema_def opt_member_def z_string_def)
  next
    case (Some u)
    with h(2) have "url z u" by (auto dest: opt_where)
    with Some p h show ?thesis
      by (simp add: ProviderConfigSchema_def OpenAIProviderSchema_def opt_member_def z_string_def)
  qed
qed

lemma Custom_again:
  assumes "CustomProviderSchema z f = Some p"
  shows "ProviderConfigSchema z (Some (json_ProviderConfig p)) = Some p"
proof -
  from assms obtain mo bu ak hs mt te where p: "p = CustomProvider mo bu ak hs mt te"
    and h: "nonempty mo" "url z bu" "z_optional z_string (f ''apiKeyRef'') = Some ak"
      "z_optional (z_record z_string) (f ''headers'') = Some hs"
      "z_int_positive (Some (JNum mt)) = Some mt" "z_temperature (Some (JNum te)) = Some te"
    by (auto simp: CustomProviderSchema_def bind_eq_Some_conv
        dest!: dflt dflt_string dflt_temperature where_holds)
  have hs: "\<And>v. hs = Some v \<Longrightarrow> z_record z_string (Some (json_headers v)) = Some v"
    using h(4) by (auto dest: opt_headers)
  show ?thesis
    using p h(1,2,5,6) hs
    by (cases ak; cases hs)
       (simp_all add: ProviderConfigSchema_def CustomProviderSchema_def opt_member_def z_string_def)
qed

lemma ProviderConfigSchema_again:
  assumes "ProviderConfigSchema z y = Some p"
  shows "ProviderConfigSchema z (Some (json_ProviderConfig p)) = Some p"
proof -
  from assms obtain f where
    "AnthropicProviderSchema f = Some p \<or> OpenAIProviderSchema z f = Some p
   \<or> OllamaProviderSchema z f = Some p \<or> CustomProviderSchema z f = Some p"
    by (auto simp: ProviderConfigSchema_def bind_eq_Some_conv split: if_splits)
  then show ?thesis
    using Anthropic_again Ollama_again OpenAI_again Custom_again by blast
qed

lemma z_position_again: "z_position y = Some p \<Longrightarrow> z_position (Some (json_position p)) = Some p"
  by (auto simp: z_position_def json_position_def bind_eq_Some_conv z_number_def)

lemma GraphNodeSchema_again:
  assumes "GraphNodeSchema y = Some n"
  shows "GraphNodeSchema (Some (json_GraphNode n)) = Some n"
proof -
  from assms obtain f i t p d where
    n: "n = \<lparr>node_id = i, node_type = t, position = p, data = d\<rparr>"
    and t: "NodeTypeSchema (f ''type'') = Some t" and p: "z_position (f ''position'') = Some p"
    by (auto simp: GraphNodeSchema_def bind_eq_Some_conv)
  show ?thesis
    unfolding n using NodeTypeSchema_again [OF t] z_position_again [OF p]
    by (simp add: GraphNodeSchema_def json_GraphNode_def z_record_unknown_def z_string_def)
qed

lemma GraphEdgeSchema_again:
  assumes "GraphEdgeSchema y = Some e"
  shows "GraphEdgeSchema (Some (json_GraphEdge e)) = Some e"
proof -
  from assms obtain i s sh t th l where
    e: "e = \<lparr>edge_id = i, source = s, sourceHandle = sh, target = t, targetHandle = th, label = l\<rparr>"
    by (auto simp: GraphEdgeSchema_def bind_eq_Some_conv)
  show ?thesis
    unfolding e
    by (cases sh; cases th; cases l)
       (simp_all add: GraphEdgeSchema_def json_GraphEdge_def opt_member_def z_string_def)
qed

lemma dflt_nodes:
  "z_default d (z_array GraphNodeSchema) y = Some ns \<Longrightarrow>
   z_array GraphNodeSchema (Some (JArr (map json_GraphNode ns))) = Some ns"
  by (rule z_default_again [where e = "\<lambda>xs. JArr (map json_GraphNode xs)"])
     (auto intro: z_array_again GraphNodeSchema_again)

lemma dflt_edges:
  "z_default d (z_array GraphEdgeSchema) y = Some es \<Longrightarrow>
   z_array GraphEdgeSchema (Some (JArr (map json_GraphEdge es))) = Some es"
  by (rule z_default_again [where e = "\<lambda>xs. JArr (map json_GraphEdge xs)"])
     (auto intro: z_array_again GraphEdgeSchema_again)

lemma GraphSchema_again:
  assumes "GraphSchema y = Some g"
  shows "GraphSchema (Some (json_Graph g)) = Some g"
  using assms
  by (auto simp: GraphSchema_def json_Graph_def bind_eq_Some_conv dest!: dflt_nodes dflt_edges)

lemma CodeBlockSchema_again:
  assumes "CodeBlockSchema z y = Some b"
  shows "CodeBlockSchema z (Some (json_CodeBlock b)) = Some b"
proof -
  from assms obtain f i n d c s g ca ua where
    b: "b = \<lparr>block_id = i, block_name = n, block_description = d, block_code = c, inputSchema = s,
           graphPosition = g, block_createdAt = ca, block_updatedAt = ua\<rparr>"
    and h: "uuid z i" "block_name_ok n" "length d \<le> 512" "datetime z ca" "datetime z ua"
    and g: "z_optional z_position (f ''graphPosition'') = Some g"
    by (auto simp: CodeBlockSchema_def bind_eq_Some_conv dest!: where_holds dflt_where_holds)
  have g': "\<And>p. g = Some p \<Longrightarrow> z_position (Some (json_position p)) = Some p"
    using g by (auto simp: z_optional_def split: option.splits dest: z_position_again)
  show ?thesis
    unfolding b using h g'
    by (cases g) (simp_all add: CodeBlockSchema_def json_CodeBlock_def opt_member_def z_string_def)
qed

lemma dflt_codeBlocks:
  "z_default d (z_array (CodeBlockSchema z)) y = Some bs \<Longrightarrow>
   z_array (CodeBlockSchema z) (Some (JArr (map json_CodeBlock bs))) = Some bs"
  by (rule z_default_again [where e = "\<lambda>xs. JArr (map json_CodeBlock xs)"])
     (auto intro: z_array_again CodeBlockSchema_again)

lemma dflt_permissions:
  "z_default d ToolPermissionsSchema y = Some p \<Longrightarrow>
   ToolPermissionsSchema (Some (json_ToolPermissions p)) = Some p"
  unfolding z_default_def by (rule ToolPermissionsSchema_again)

text \<open>What the schema accepts, read off a parsed agent.\<close>

lemma AgentDefinitionSchema_parts:
  assumes "AgentDefinitionSchema z y = Some a"
  shows "uuid z (id' a)" "version a = 1" "1 \<le> length (name a)" "length (name a) \<le> 128"
    "length (description a) \<le> 1024" "datetime z (createdAt a)" "datetime z (updatedAt a)"
    "ProviderConfigSchema z (Some (json_ProviderConfig (provider a))) = Some (provider a)"
    "GraphSchema (Some (json_Graph (graph a))) = Some (graph a)"
    "z_array (CodeBlockSchema z) (Some (JArr (map json_CodeBlock (codeBlocks a)))) = Some (codeBlocks a)"
    "ToolPermissionsSchema (Some (json_ToolPermissions (permissions a))) = Some (permissions a)"
proof -
  from assms obtain f where
    f: "z_string_where (uuid z) (f ''id'') = Some (id' a)"
       "z_literal_1 (f ''version'') = Some (version a)"
       "z_string_where (\<lambda>s. 1 \<le> length s \<and> length s \<le> 128) (f ''name'') = Some (name a)"
       "z_default (JStr []) (z_string_where (\<lambda>s. length s \<le> 1024)) (f ''description'') = Some (description a)"
       "z_string_where (datetime z) (f ''createdAt'') = Some (createdAt a)"
       "z_string_where (datetime z) (f ''updatedAt'') = Some (updatedAt a)"
       "ProviderConfigSchema z (f ''provider'') = Some (provider a)"
       "GraphSchema (f ''graph'') = Some (graph a)"
       "z_default (JArr []) (z_array (CodeBlockSchema z)) (f ''codeBlocks'') = Some (codeBlocks a)"
       "z_default (JObj []) ToolPermissionsSchema (f ''permissions'') = Some (permissions a)"
    by (auto simp: AgentDefinitionSchema_def bind_eq_Some_conv)
  show "uuid z (id' a)" using f(1) by (rule where_holds)
  show "version a = 1" using f(2) by (auto simp: z_literal_1_def split: if_splits)
  show "1 \<le> length (name a)" "length (name a) \<le> 128" using where_holds [OF f(3)] by simp_all
  show "length (description a) \<le> 1024" using f(4) by (rule dflt_where_holds)
  show "datetime z (createdAt a)" using f(5) by (rule where_holds)
  show "datetime z (updatedAt a)" using f(6) by (rule where_holds)
  show "ProviderConfigSchema z (Some (json_ProviderConfig (provider a))) = Some (provider a)"
    using f(7) by (rule ProviderConfigSchema_again)
  show "GraphSchema (Some (json_Graph (graph a))) = Some (graph a)"
    using f(8) by (rule GraphSchema_again)
  show "z_array (CodeBlockSchema z) (Some (JArr (map json_CodeBlock (codeBlocks a)))) = Some (codeBlocks a)"
    using f(9) by (rule dflt_codeBlocks)
  show "ToolPermissionsSchema (Some (json_ToolPermissions (permissions a))) = Some (permissions a)"
    using f(10) by (rule dflt_permissions)
qed

lemma z_boolean_JBool [simp]: "z_boolean (Some (JBool b)) = Some b"
  by (simp add: z_boolean_def)

lemma z_string_JStr [simp]: "z_string (Some (JStr s)) = Some s"
  by (simp add: z_string_def)

lemma z_array_strings [simp]: "z_array z_string (Some (JArr (map JStr xs))) = Some xs"
  by (induction xs) (simp_all add: z_array_def)

lemma AgentDefinitionSchema_accepts:
  assumes "uuid z (id' a)" "version a = 1" "1 \<le> length (name a)" "length (name a) \<le> 128"
    "length (description a) \<le> 1024" "datetime z (createdAt a)" "datetime z (updatedAt a)"
    "ProviderConfigSchema z (Some (json_ProviderConfig (provider a))) = Some (provider a)"
    "GraphSchema (Some (json_Graph (graph a))) = Some (graph a)"
    "z_array (CodeBlockSchema z) (Some (JArr (map json_CodeBlock (codeBlocks a)))) = Some (codeBlocks a)"
    "ToolPermissionsSchema (Some (json_ToolPermissions (permissions a))) = Some (permissions a)"
  shows "AgentDefinitionSchema z (Some (json_AgentDefinition a)) = Some a"
  using assms
  by (cases a) (simp add: AgentDefinitionSchema_def json_AgentDefinition_def z_literal_1_def)

lemma AgentDefinitionSchema_new_identity:
  assumes "AgentDefinitionSchema z y = Some a" and "uuid z i" "datetime z c" "datetime z u"
  shows "AgentDefinitionSchema z (Some (json_AgentDefinition (a\<lparr>id' := i, createdAt := c, updatedAt := u\<rparr>)))
       = Some (a\<lparr>id' := i, createdAt := c, updatedAt := u\<rparr>)"
  using AgentDefinitionSchema_parts [OF assms(1)] assms(2-)
  by (intro AgentDefinitionSchema_accepts) simp_all

subsection \<open>The agents repository\<close>

lemma raw_of_row_agentToRow:
  "z_object (Some (raw_of_row (agentToRow a))) = z_object (Some (json_AgentDefinition a))"
  by (auto simp: raw_of_row_def agentToRow_def json_AgentDefinition_def fun_eq_iff)

lemma AgentDefinitionSchema_cong:
  "z_object x = z_object y \<Longrightarrow> AgentDefinitionSchema z x = AgentDefinitionSchema z y"
  by (simp add: AgentDefinitionSchema_def)

lemma rowToAgent_agentToRow:
  assumes "AgentDefinitionSchema z (Some (json_AgentDefinition a)) = Some a"
  shows "rowToAgent z (agentToRow a) = Inr a"
  using assms AgentDefinitionSchema_cong [OF raw_of_row_agentToRow, of z a]
  by (simp add: rowToAgent_def)

lemma import_object:
  "AList.update ''updatedAt'' (JStr u) (AList.update ''createdAt'' (JStr c)
     (AList.update ''id'' (JStr i) (spread (json_AgentDefinition a))))
   = spread (json_AgentDefinition (a\<lparr>id' := i, createdAt := c, updatedAt := u\<rparr>))"
  by (simp add: spread_def json_AgentDefinition_def)

lemma spread_agent: "JObj (spread (json_AgentDefinition a)) = json_AgentDefinition a"
  by (simp add: spread_def json_AgentDefinition_def)

lemma find_append_miss: "find P xs = None \<Longrightarrow> find P (xs @ ys) = find P ys"
  by (induction xs) (auto split: if_splits)

text \<open>
  The round trip of a readable agent. An agent that \<^verbatim>\<open>getAgent\<close> reads, exported with \<^verbatim>\<open>exportAgent\<close> and imported
  again with \<^verbatim>\<open>importAgent\<close>, gives an agent that differs from the original in \<^verbatim>\<open>id\<close>,
  \<^verbatim>\<open>createdAt\<close> and \<^verbatim>\<open>updatedAt\<close> only: its permissions and its graph are the original's,
  and reading the imported agent back from the database returns it unchanged. The new id is
  a UUID not yet in the table, the two timestamps are ISO timestamps, and the database is
  writable.
\<close>

lemma export_import_round_trip:
  assumes "getAgent z db i = Inr (Some a)"
    and "uuid z newId" "datetime z now1" "datetime z now2"
    and "db = Some d" "write_fault d = None" "select_agent d newId = None"
  shows "\<exists>exported a' db'.
      exportAgent z db i = Inr exported
    \<and> importAgent z newId now1 now2 db exported = Inr (a', db')
    \<and> permissions a' = permissions a \<and> graph a' = graph a
    \<and> a' = a\<lparr>id' := newId, createdAt := now1, updatedAt := now2\<rparr>
    \<and> getAgent z db' newId = Inr (Some a')"
proof -
  let ?a' = "a\<lparr>id' := newId, createdAt := now1, updatedAt := now2\<rparr>"
  let ?db' = "Some (d\<lparr>agents := agents d @ [agentToRow ?a']\<rparr>)"
  from assms(1) obtain y where y: "AgentDefinitionSchema z y = Some a"
    by (auto simp: getAgent_def rowToAgent_def split: sum.splits option.splits)
  have parse: "AgentDefinitionSchema z (Some (json_AgentDefinition ?a')) = Some ?a'"
    using y assms(2-4) by (rule AgentDefinitionSchema_new_identity)
  have ex: "exportAgent z db i = Inr (json_AgentDefinition a)"
    using assms(1) by (simp add: exportAgent_def)
  have ins: "insert_agent db (agentToRow ?a') = Inr ?db'"
    using assms(5-7) by (simp add: insert_agent_def getDb_def agentToRow_def)
  have "select_agent (d\<lparr>agents := agents d @ [agentToRow ?a']\<rparr>) newId = Some (agentToRow ?a')"
    using assms(7) by (simp add: select_agent_def find_append_miss agentToRow_def)
  note sel = this
  have im: "importAgent z newId now1 now2 db (json_AgentDefinition a) = Inr (?a', ?db')"
    unfolding importAgent_def import_object spread_agent parse using ins by simp
  have rd: "getAgent z ?db' newId = Inr (Some ?a')"
    using rowToAgent_agentToRow [OF parse] sel by (simp add: getAgent_def getDb_def)
  from ex im rd show ?thesis by simp
qed

subsection \<open>The example agent\<close>

lemma example_uuid: "uuid example_zod ''7c9e6679-7425-40de-944b-e07fc1f90ae7''"
  by (simp add: example_zod_def matches_template_def is_hex_def is_digit_def)

lemma example_datetime: "datetime example_zod ''2024-01-01T00:00:00.000Z''"
  by (simp add: example_zod_def matches_template_def is_hex_def is_digit_def)

lemma is_int_numeral [simp]: "is_int (numeral n)"
  by (simp add: is_int_def)

lemma parse_all_strings [simp]: "parse_all z_string (map JStr xs) = Some xs"
  by (induction xs) simp_all

lemma example_provider:
  "ProviderConfigSchema example_zod (Some (json_ProviderConfig (provider example_agent))) = Some (provider example_agent)"
  by (simp add: example_agent_def ProviderConfigSchema_def AnthropicProviderSchema_def
      z_int_positive_def z_number_def z_temperature_def nonempty_def)

lemma example_graph:
  "GraphSchema (Some (json_Graph (graph example_agent))) = Some (graph example_agent)"
  by (simp add: example_agent_def createDefaultGraph_def GraphSchema_def json_Graph_def
      GraphNodeSchema_def json_GraphNode_def GraphEdgeSchema_def json_GraphEdge_def z_array_def
      NodeTypeSchema_def z_position_def json_position_def z_number_def z_record_unknown_def
      opt_member_def)

lemma example_permissions:
  "ToolPermissionsSchema (Some (json_ToolPermissions DEFAULT_TOOL_PERMISSIONS)) = Some DEFAULT_TOOL_PERMISSIONS"
  by (simp add: DEFAULT_TOOL_PERMISSIONS_def ToolPermissionsSchema_def json_ToolPermissions_def
      FileSystemPermissionSchema_def json_FileSystemPermission_def
      HttpPermissionSchema_def json_HttpPermission_def
      ShellPermissionSchema_def json_ShellPermission_def
      CodeExecPermissionSchema_def json_CodeExecPermission_def
      z_int_positive_def z_number_def z_access_def z_method_def z_array_def z_record_def
      opt_member_def)

lemma example_agent_valid:
  "AgentDefinitionSchema example_zod (Some (json_AgentDefinition example_agent)) = Some example_agent"
proof (rule AgentDefinitionSchema_accepts)
  show "ProviderConfigSchema example_zod (Some (json_ProviderConfig (provider example_agent))) = Some (provider example_agent)"
    by (rule example_provider)
  show "GraphSchema (Some (json_Graph (graph example_agent))) = Some (graph example_agent)"
    by (rule example_graph)
  show "ToolPermissionsSchema (Some (json_ToolPermissions (permissions example_agent))) = Some (permissions example_agent)"
    using example_permissions by (simp add: example_agent_def)
qed (simp_all add: example_agent_def example_uuid example_datetime z_array_def)

lemma getAgent_example:
  "getAgent example_zod example_db ''7c9e6679-7425-40de-944b-e07fc1f90ae7'' = Inr (Some example_agent)"
  using rowToAgent_agentToRow [OF example_agent_valid]
  by (simp add: getAgent_def getDb_def example_db_def select_agent_def empty_db_def)
     (simp add: agentToRow_def example_agent_def)

lemma export_import_round_trip_example:
  "getAgent example_zod example_db ''7c9e6679-7425-40de-944b-e07fc1f90ae7'' = Inr (Some example_agent)
 \<and> uuid example_zod ''123e4567-e89b-42d3-a456-426614174000''
 \<and> datetime example_zod ''2025-06-01T12:00:00.000Z''
 \<and> datetime example_zod ''2025-06-01T12:00:00.001Z''
 \<and> example_db = Some (empty_db\<lparr>agents := [agentToRow example_agent]\<rparr>)
 \<and> write_fault (empty_db\<lparr>agents := [agentToRow example_agent]\<rparr>) = None
 \<and> select_agent (empty_db\<lparr>agents := [agentToRow example_agent]\<rparr>) ''123e4567-e89b-42d3-a456-426614174000'' = None
 \<and> (\<exists>exported a' db'.
      exportAgent example_zod example_db ''7c9e6679-7425-40de-944b-e07fc1f90ae7'' = Inr exported
    \<and> importAgent example_zod ''123e4567-e89b-42d3-a456-426614174000'' ''2025-06-01T12:00:00.000Z''
          ''2025-06-01T12:00:00.001Z'' example_db exported = Inr (a', db')
    \<and> permissions a' = permissions example_agent \<and> graph a' = graph example_agent
    \<and> a' = example_agent\<lparr>id' := ''123e4567-e89b-42d3-a456-426614174000'',
          createdAt := ''2025-06-01T12:00:00.000Z'', updatedAt := ''2025-06-01T12:00:00.001Z''\<rparr>
    \<and> getAgent example_zod db' ''123e4567-e89b-42d3-a456-426614174000'' = Inr (Some a'))"
proof -
  have u: "uuid example_zod ''123e4567-e89b-42d3-a456-426614174000''"
    by (simp add: example_zod_def matches_template_def is_hex_def is_digit_def)
  have t1: "datetime example_zod ''2025-06-01T12:00:00.000Z''"
    by (simp add: example_zod_def matches_template_def is_hex_def is_digit_def)
  have t2: "datetime example_zod ''2025-06-01T12:00:00.001Z''"
    by (simp add: example_zod_def matches_template_def is_hex_def is_digit_def)
  have d: "example_db = Some (empty_db\<lparr>agents := [agentToRow example_agent]\<rparr>)"
    by (simp add: example_db_def)
  have w: "write_fault (empty_db\<lparr>agents := [agentToRow example_agent]\<rparr>) = None"
    by (simp add: empty_db_def)
  have n: "select_agent (empty_db\<lparr>agents := [agentToRow example_agent]\<rparr>) ''123e4567-e89b-42d3-a456-426614174000'' = None"
    by (simp add: select_agent_def agentToRow_def example_agent_def)
  from export_import_round_trip [OF getAgent_example u t1 t2 d w n] getAgent_example u t1 t2 d w n
  show ?thesis by blast
qed

text \<open>The example database is what \<^verbatim>\<open>importAgent\<close> leaves when it imports the example agent.\<close>

lemma example_db_imported:
  "importAgent example_zod ''7c9e6679-7425-40de-944b-e07fc1f90ae7'' ''2024-01-01T00:00:00.000Z''
     ''2024-01-01T00:00:00.000Z'' (Some empty_db) (json_AgentDefinition example_agent)
   = Inr (example_agent, example_db)"
proof -
  have eq: "example_agent\<lparr>id' := ''7c9e6679-7425-40de-944b-e07fc1f90ae7'',
      createdAt := ''2024-01-01T00:00:00.000Z'', updatedAt := ''2024-01-01T00:00:00.000Z''\<rparr> = example_agent"
    by (simp add: example_agent_def)
  have ins: "insert_agent (Some empty_db) (agentToRow example_agent) = Inr example_db"
    by (simp add: insert_agent_def getDb_def empty_db_def select_agent_def example_db_def)
  show ?thesis
    unfolding importAgent_def import_object spread_agent eq example_agent_valid using ins by simp
qed

subsection \<open>Creating an agent\<close>

text \<open>
  The schema refuses \<^verbatim>\<open>DEFAULT_PROVIDER\<close>, whose \<^verbatim>\<open>apiKeyRef\<close> is the empty string, and with
  it every agent that has this provider.
\<close>

lemma DEFAULT_PROVIDER_refused:
  "ProviderConfigSchema z (Some (json_ProviderConfig DEFAULT_PROVIDER)) = None"
  by (simp add: DEFAULT_PROVIDER_def ProviderConfigSchema_def AnthropicProviderSchema_def nonempty_def)

lemma AgentDefinitionSchema_needs_provider:
  assumes "ProviderConfigSchema z (Some (json_ProviderConfig (provider a))) = None"
  shows "AgentDefinitionSchema z (Some (json_AgentDefinition a)) = None"
  using assms by (cases a) (simp add: AgentDefinitionSchema_def json_AgentDefinition_def)

text \<open>
  An agent that \<^verbatim>\<open>createAgent\<close> has stored cannot be read: \<^verbatim>\<open>getAgent\<close> throws the schema's
  error for it, and so do \<^verbatim>\<open>exportAgent\<close> and \<^verbatim>\<open>updateAgent\<close>, whatever the update.
\<close>

lemma created_agent_unreadable:
  assumes "createAgent newId now db agentName agentDescription = Inr (agent, db')"
  shows "getAgent z db' newId = Inl invalid_agent"
    and "exportAgent z db' newId = Inl invalid_agent"
    and "updateAgent z now' db' newId updates = Inl invalid_agent"
proof -
  let ?a = "\<lparr>id' = newId, version = 1, name = agentName, description = agentDescription,
      createdAt = now, updatedAt = now, provider = DEFAULT_PROVIDER,
      systemPrompt = ''You are a helpful AI assistant.'', graph = createDefaultGraph,
      codeBlocks = [], permissions = DEFAULT_TOOL_PERMISSIONS, tags = [], auditEnabled = True\<rparr>"
  from assms obtain d where d: "db = Some d" "write_fault d = None" "select_agent d newId = None"
    and db': "db' = Some (d\<lparr>agents := agents d @ [agentToRow ?a]\<rparr>)"
    by (auto simp: createAgent_def insert_agent_def getDb_def Let_def agentToRow_def
        split: option.splits sum.splits)
  have sel: "select_agent (d\<lparr>agents := agents d @ [agentToRow ?a]\<rparr>) newId = Some (agentToRow ?a)"
    using d(3) by (simp add: select_agent_def find_append_miss agentToRow_def)
  have "AgentDefinitionSchema z (Some (json_AgentDefinition ?a)) = None"
    by (rule AgentDefinitionSchema_needs_provider) (simp add: DEFAULT_PROVIDER_refused)
  then have "AgentDefinitionSchema z (Some (raw_of_row (agentToRow ?a))) = None"
    using AgentDefinitionSchema_cong [OF raw_of_row_agentToRow, of z ?a] by simp
  then have row: "rowToAgent z (agentToRow ?a) = Inl invalid_agent"
    by (simp add: rowToAgent_def)
  show g: "getAgent z db' newId = Inl invalid_agent"
    unfolding db' using sel row by (simp add: getAgent_def getDb_def)
  show "exportAgent z db' newId = Inl invalid_agent"
    using g by (simp add: exportAgent_def)
  show "updateAgent z now' db' newId updates = Inl invalid_agent"
    using g by (simp add: updateAgent_def getDb_def db')
qed

text \<open>
  C9. The round trip fails for an agent the application has created.
  \<^verbatim>\<open>createAgent('Helper')\<close> on an empty database stores the agent with \<^verbatim>\<open>DEFAULT_PROVIDER\<close>;
  \<^verbatim>\<open>exportAgent\<close> of its id then throws the schema's error instead of returning the export
  text, whatever the schema's checks of UUIDs, timestamps and URLs accept, so there is
  nothing to import again.
\<close>

theorem created_agent_cannot_be_exported:
  "createAgent ''7c9e6679-7425-40de-944b-e07fc1f90ae7'' ''2024-01-01T00:00:00.000Z'' (Some empty_db)
     ''Helper'' [] = Inr (created_agent, created_db)
 \<and> select_agent (the created_db) ''7c9e6679-7425-40de-944b-e07fc1f90ae7'' = Some (agentToRow created_agent)
 \<and> exportAgent z created_db ''7c9e6679-7425-40de-944b-e07fc1f90ae7'' = Inl invalid_agent"
proof -
  have c: "createAgent ''7c9e6679-7425-40de-944b-e07fc1f90ae7'' ''2024-01-01T00:00:00.000Z'' (Some empty_db)
     ''Helper'' [] = Inr (created_agent, created_db)"
    by (simp add: createAgent_def insert_agent_def getDb_def Let_def select_agent_def empty_db_def
        created_agent_def created_db_def DEFAULT_PROVIDER_def)
  have s: "select_agent (the created_db) ''7c9e6679-7425-40de-944b-e07fc1f90ae7'' = Some (agentToRow created_agent)"
    by (simp add: created_db_def select_agent_def agentToRow_def created_agent_def)
  have p: "ProviderConfigSchema z (Some (json_ProviderConfig (provider created_agent))) = None"
    using DEFAULT_PROVIDER_refused [of z] by (simp add: created_agent_def DEFAULT_PROVIDER_def)
  have "AgentDefinitionSchema z (Some (json_AgentDefinition created_agent)) = None"
    using p by (rule AgentDefinitionSchema_needs_provider)
  then have "AgentDefinitionSchema z (Some (raw_of_row (agentToRow created_agent))) = None"
    using AgentDefinitionSchema_cong [OF raw_of_row_agentToRow, of z created_agent] by simp
  then have "rowToAgent z (agentToRow created_agent) = Inl invalid_agent"
    by (simp add: rowToAgent_def)
  with s have "getAgent z created_db ''7c9e6679-7425-40de-944b-e07fc1f90ae7'' = Inl invalid_agent"
    by (simp add: getAgent_def getDb_def created_db_def)
  then have e: "exportAgent z created_db ''7c9e6679-7425-40de-944b-e07fc1f90ae7'' = Inl invalid_agent"
    by (simp add: exportAgent_def)
  from c s e show ?thesis by simp
qed

subsection \<open>Updating an agent\<close>

lemma find_map_update:
  assumes "\<And>r. id_col r = i \<Longrightarrow> id_col (f r) = i"
  shows "find (\<lambda>r. id_col r = i) (map (\<lambda>old. if id_col old = i then f old else old) rows)
       = map_option f (find (\<lambda>r. id_col r = i) rows)"
  by (induction rows) (auto simp: assms)

lemma find_holds: "find P xs = Some x \<Longrightarrow> P x"
  by (induction xs) (auto split: if_splits)

text \<open>
  C10. When \<^verbatim>\<open>updateAgent(id, updates)\<close> returns, the agent it returns and the row it has
  stored carry the id that was passed, which is the id of the row that was read, version
  \<^verbatim>\<open>1\<close> and the time of the update as \<^verbatim>\<open>updatedAt\<close>, whatever id, version or \<^verbatim>\<open>updatedAt\<close>
  the updates hold. (When the merged definition fails the schema the call throws and nothing
  is stored.)
\<close>

theorem updateAgent_keeps_identity:
  assumes "updateAgent z now db i updates = Inr (merged, db')"
  shows "id' merged = i \<and> version merged = 1 \<and> updatedAt merged = now
       \<and> (\<exists>d' row. db' = Some d' \<and> select_agent d' i = Some row
            \<and> id_col row = i \<and> version_col row = 1 \<and> updated_at row = now)"
proof -
  from assms obtain d existing old where
    d: "db = Some d" and old: "select_agent d i = Some old"
    and m: "merged = merged_agent existing updates i now"
    and db': "db' = Some (d\<lparr>agents := map (\<lambda>old. if id_col old = i
                then update_row old (agentToRow merged) else old) (agents d)\<rparr>)"
    by (auto simp: updateAgent_def getAgent_def getDb_def Let_def
        split: option.splits sum.splits)
  let ?d' = "d\<lparr>agents := map (\<lambda>old. if id_col old = i
                then update_row old (agentToRow merged) else old) (agents d)\<rparr>"
  let ?row = "update_row old (agentToRow merged)"
  have idold: "id_col old = i"
    using old find_holds [of "\<lambda>r. id_col r = i" "agents d" old] by (simp add: select_agent_def)
  have mi: "id' merged = i" "version merged = 1" "updatedAt merged = now"
    by (simp_all add: m merged_agent_def)
  have sel: "select_agent ?d' i = Some ?row"
    using old by (simp add: select_agent_def find_map_update update_row_def)
  have row: "id_col ?row = i" "version_col ?row = 1" "updated_at ?row = now"
    using idold mi by (simp_all add: update_row_def agentToRow_def)
  from db' sel row mi show ?thesis by blast
qed

lemma example_merged_valid:
  "AgentDefinitionSchema example_zod (Some (json_AgentDefinition
      (merged_agent example_agent example_updates ''7c9e6679-7425-40de-944b-e07fc1f90ae7'' ''2025-06-01T12:00:00.000Z'')))
   = Some (merged_agent example_agent example_updates ''7c9e6679-7425-40de-944b-e07fc1f90ae7'' ''2025-06-01T12:00:00.000Z'')"
proof (rule AgentDefinitionSchema_accepts)
  let ?m = "merged_agent example_agent example_updates ''7c9e6679-7425-40de-944b-e07fc1f90ae7'' ''2025-06-01T12:00:00.000Z''"
  have p: "provider ?m = provider example_agent" "graph ?m = graph example_agent"
    "permissions ?m = permissions example_agent" "codeBlocks ?m = []"
    by (simp_all add: merged_agent_def example_updates_def or_else_def example_agent_def)
  show "ProviderConfigSchema example_zod (Some (json_ProviderConfig (provider ?m))) = Some (provider ?m)"
    unfolding p by (rule example_provider)
  show "GraphSchema (Some (json_Graph (graph ?m))) = Some (graph ?m)"
    unfolding p by (rule example_graph)
  show "ToolPermissionsSchema (Some (json_ToolPermissions (permissions ?m))) = Some (permissions ?m)"
    unfolding p using example_permissions by (simp add: example_agent_def)
  show "z_array (CodeBlockSchema example_zod) (Some (JArr (map json_CodeBlock (codeBlocks ?m)))) = Some (codeBlocks ?m)"
    unfolding p by (simp add: z_array_def)
qed (simp_all add: merged_agent_def example_updates_def or_else_def example_agent_def
      example_zod_def matches_template_def is_hex_def is_digit_def)

theorem updateAgent_keeps_identity_witness:
  "updateAgent example_zod ''2025-06-01T12:00:00.000Z'' example_db
      ''7c9e6679-7425-40de-944b-e07fc1f90ae7'' example_updates
   = Inr (merged_agent example_agent example_updates ''7c9e6679-7425-40de-944b-e07fc1f90ae7'' ''2025-06-01T12:00:00.000Z'',
          Some (empty_db\<lparr>agents := [update_row (agentToRow example_agent)
            (agentToRow (merged_agent example_agent example_updates
               ''7c9e6679-7425-40de-944b-e07fc1f90ae7'' ''2025-06-01T12:00:00.000Z''))]\<rparr>))
 \<and> upd_id example_updates = Some ''00000000-0000-4000-8000-000000000000''
 \<and> upd_version example_updates = Some 7
 \<and> id' (merged_agent example_agent example_updates ''7c9e6679-7425-40de-944b-e07fc1f90ae7'' ''2025-06-01T12:00:00.000Z'')
     = ''7c9e6679-7425-40de-944b-e07fc1f90ae7''
 \<and> version (merged_agent example_agent example_updates ''7c9e6679-7425-40de-944b-e07fc1f90ae7'' ''2025-06-01T12:00:00.000Z'') = 1
 \<and> updatedAt (merged_agent example_agent example_updates ''7c9e6679-7425-40de-944b-e07fc1f90ae7'' ''2025-06-01T12:00:00.000Z'')
     = ''2025-06-01T12:00:00.000Z''
 \<and> (\<exists>d' row. Some (empty_db\<lparr>agents := [update_row (agentToRow example_agent)
            (agentToRow (merged_agent example_agent example_updates
               ''7c9e6679-7425-40de-944b-e07fc1f90ae7'' ''2025-06-01T12:00:00.000Z''))]\<rparr>) = Some d'
      \<and> select_agent d' ''7c9e6679-7425-40de-944b-e07fc1f90ae7'' = Some row
      \<and> id_col row = ''7c9e6679-7425-40de-944b-e07fc1f90ae7'' \<and> version_col row = 1
      \<and> updated_at row = ''2025-06-01T12:00:00.000Z'')"
proof -
  have idc: "id_col (agentToRow example_agent) = ''7c9e6679-7425-40de-944b-e07fc1f90ae7''"
    by (simp add: agentToRow_def example_agent_def)
  have u: "updateAgent example_zod ''2025-06-01T12:00:00.000Z'' example_db
      ''7c9e6679-7425-40de-944b-e07fc1f90ae7'' example_updates
   = Inr (merged_agent example_agent example_updates ''7c9e6679-7425-40de-944b-e07fc1f90ae7'' ''2025-06-01T12:00:00.000Z'',
          Some (empty_db\<lparr>agents := [update_row (agentToRow example_agent)
            (agentToRow (merged_agent example_agent example_updates
               ''7c9e6679-7425-40de-944b-e07fc1f90ae7'' ''2025-06-01T12:00:00.000Z''))]\<rparr>))"
  proof -
    have g: "getDb example_db = Inr (empty_db\<lparr>agents := [agentToRow example_agent]\<rparr>)"
      by (simp add: getDb_def example_db_def)
    show ?thesis
      by (simp add: updateAgent_def g getAgent_example example_merged_valid Let_def empty_db_def idc)
  qed
  have e: "upd_id example_updates = Some ''00000000-0000-4000-8000-000000000000''"
    "upd_version example_updates = Some 7"
    by (simp_all add: example_updates_def)
  from updateAgent_keeps_identity [OF u] u e show ?thesis by blast
qed

lemma updateAgent_refused:
  "updateAgent example_zod ''2025-06-01T12:00:00.000Z'' example_db
      ''7c9e6679-7425-40de-944b-e07fc1f90ae7'' (example_updates\<lparr>upd_name := Some []\<rparr>)
   = Inl invalid_agent"
proof -
  have g: "getDb example_db = Inr (empty_db\<lparr>agents := [agentToRow example_agent]\<rparr>)"
    by (simp add: getDb_def example_db_def)
  have "AgentDefinitionSchema example_zod (Some (json_AgentDefinition
      (merged_agent example_agent (example_updates\<lparr>upd_name := Some []\<rparr>)
         ''7c9e6679-7425-40de-944b-e07fc1f90ae7'' ''2025-06-01T12:00:00.000Z''))) = None"
    by (simp add: AgentDefinitionSchema_def json_AgentDefinition_def merged_agent_def
        example_updates_def or_else_def example_uuid z_literal_1_def)
  then show ?thesis
    by (simp add: updateAgent_def g getAgent_example Let_def)
qed

subsection \<open>The runner\<close>

lemma getAgent_faulty:
  "getAgent example_zod faulty_db ''7c9e6679-7425-40de-944b-e07fc1f90ae7'' = Inr (Some example_agent)"
  using rowToAgent_agentToRow [OF example_agent_valid]
  by (simp add: getAgent_def getDb_def faulty_db_def select_agent_def empty_db_def)
     (simp add: agentToRow_def example_agent_def)

lemma emitted_emitToRenderer [simp]: "emitted (emitToRenderer ev s) = emitted s @ [ev]"
  by (simp add: emitToRenderer_def)

lemma new_events_append [simp]: "emitted s' = emitted s @ evs \<Longrightarrow> new_events s s' = evs"
  by (simp add: new_events_def)

lemma audit_fails:
  assumes "db_handle s = Some d" "write_fault d = Some e" "auditEnabled agent"
  shows "audit_if_enabled ns now agent entry s = Inl e"
  using assms by (simp add: audit_if_enabled_def appendAuditLog_def getDb_def)

text \<open>
  C7, amended. A failure of an audit write is not kept away from the run. With auditing
  enabled and a database that refuses the write: \<^verbatim>\<open>runner.start\<close> has registered the run
  and emitted \<^verbatim>\<open>run-started\<close> when the write throws, and it returns the exception's text as
  an error response without calling \<^verbatim>\<open>runAgent\<close>; a run that reaches its end emits
  \<^verbatim>\<open>node-completed\<close> and \<^verbatim>\<open>run-completed\<close>, then the write throws and the run's catch
  handler emits \<^verbatim>\<open>run-error\<close> with that text.
\<close>

theorem audit_failure_reaches_the_run:
  assumes "db_handle s = Some d" "write_fault d = Some e"
    and "getAgent z (db_handle s) aid = Inr (Some agent)" "auditEnabled agent"
    and "task_agent t = agent" "remaining t = []"
  shows "RUNNER_START z ns now s aid userMessage rid =
           (err (String_of e),
            s\<lparr>controllers := Suc (controllers s),
              aborted := (aborted s)(controllers s := False),
              activeRuns := (activeRuns s)(rid \<mapsto> \<lparr>abortController = controllers s, confirmations = []\<rparr>),
              emitted := emitted s @ [\<lparr>ev_type = Run_started, ev_runId = rid, timestamp = now,
                 nodeId = None, ev_data = Started_data aid (name agent)\<rparr>]\<rparr>)
       \<and> new_events s (stream_step ns now t s) =
           [\<lparr>ev_type = Node_completed, ev_runId = task_runId t, timestamp = now,
              nodeId = Some ''node-llm'', ev_data = Completed_data ''llmResponse'' (responseText t)\<rparr>,
            \<lparr>ev_type = Run_completed, ev_runId = task_runId t, timestamp = now, nodeId = None,
              ev_data = Result_data (responseText t)\<rparr>,
            \<lparr>ev_type = Run_error, ev_runId = task_runId t, timestamp = now, nodeId = None,
              ev_data = Error_data (String_of e)\<rparr>]"
proof -
  have start: "RUNNER_START z ns now s aid userMessage rid =
           (err (String_of e),
            s\<lparr>controllers := Suc (controllers s),
              aborted := (aborted s)(controllers s := False),
              activeRuns := (activeRuns s)(rid \<mapsto> \<lparr>abortController = controllers s, confirmations = []\<rparr>),
              emitted := emitted s @ [\<lparr>ev_type = Run_started, ev_runId = rid, timestamp = now,
                 nodeId = None, ev_data = Started_data aid (name agent)\<rparr>]\<rparr>)"
    using assms(1-4)
    by (simp add: RUNNER_START_def Let_def audit_fails [where d = d and e = e] emitToRenderer_def)
  have fin: "emitted (stream_step ns now t s) = emitted s @
           [\<lparr>ev_type = Node_completed, ev_runId = task_runId t, timestamp = now,
              nodeId = Some ''node-llm'', ev_data = Completed_data ''llmResponse'' (responseText t)\<rparr>,
            \<lparr>ev_type = Run_completed, ev_runId = task_runId t, timestamp = now, nodeId = None,
              ev_data = Result_data (responseText t)\<rparr>,
            \<lparr>ev_type = Run_error, ev_runId = task_runId t, timestamp = now, nodeId = None,
              ev_data = Error_data (String_of e)\<rparr>]"
    using assms(1,2,4-6)
    by (simp add: stream_step_def finish_run_def Let_def run_failed_def
        audit_fails [where d = d and e = e] emitToRenderer_def)
  from start new_events_append [OF fin] show ?thesis by simp
qed

text \<open>
  C7, as stated, fails: for the example agent on a database that refuses writes,
  \<^verbatim>\<open>runner.start\<close> answers with the error of the audit write; the run is left registered,
  with \<^verbatim>\<open>run-started\<close> as its only event and no suspended call that could ever end it.
\<close>

theorem audit_failure_stops_start:
  "RUNNER_START example_zod (\<lambda>r. ''0'') ''2025-06-01T12:00:00.000Z'' (idle_runner faulty_db)
     ''7c9e6679-7425-40de-944b-e07fc1f90ae7'' ''hi'' ''run-1''
   = (err ''SqliteError: database or disk is full'',
      \<lparr>activeRuns = [''run-1'' \<mapsto> \<lparr>abortController = 0, confirmations = []\<rparr>],
       aborted = (\<lambda>_. False), controllers = 1, tasks = [],
       emitted = [\<lparr>ev_type = Run_started, ev_runId = ''run-1'', timestamp = ''2025-06-01T12:00:00.000Z'',
          nodeId = None, ev_data = Started_data ''7c9e6679-7425-40de-944b-e07fc1f90ae7'' ''Helper''\<rparr>],
       resolver_calls = [], db_handle = faulty_db\<rparr>)"
proof -
  have a: "audit_if_enabled ns now example_agent entry s = Inl (SqliteError ''database or disk is full'')"
    if "db_handle s = faulty_db" for ns now entry and s :: runner
    using that
    by (simp add: audit_if_enabled_def appendAuditLog_def getDb_def faulty_db_def example_agent_def)
  have n: "name example_agent = ''Helper''" by (simp add: example_agent_def)
  show ?thesis
    by (simp add: RUNNER_START_def idle_runner_def getAgent_faulty Let_def emitToRenderer_def n a
        fun_eq_iff)
qed

theorem audit_failure_witness:
  "db_handle (idle_runner faulty_db) = faulty_db
 \<and> getAgent example_zod (db_handle (idle_runner faulty_db)) ''7c9e6679-7425-40de-944b-e07fc1f90ae7''
     = Inr (Some example_agent)
 \<and> auditEnabled example_agent \<and> task_agent streamed_task = example_agent \<and> remaining streamed_task = []
 \<and> fst (RUNNER_START example_zod (\<lambda>r. ''0'') ''2025-06-01T12:00:00.000Z'' (idle_runner faulty_db)
          ''7c9e6679-7425-40de-944b-e07fc1f90ae7'' ''hi'' ''run-1'')
     = err ''SqliteError: database or disk is full''
 \<and> map ev_type (new_events (idle_runner faulty_db)
        (stream_step (\<lambda>r. ''0'') ''2025-06-01T12:00:00.000Z'' streamed_task (idle_runner faulty_db)))
     = [Node_completed, Run_completed, Run_error]"
proof -
  let ?d = "empty_db\<lparr>agents := [agentToRow example_agent],
     write_fault := Some (SqliteError ''database or disk is full'')\<rparr>"
  have h1: "db_handle (idle_runner faulty_db) = Some ?d"
    by (simp add: idle_runner_def faulty_db_def)
  have h2: "write_fault ?d = Some (SqliteError ''database or disk is full'')" by simp
  have h3: "getAgent example_zod (db_handle (idle_runner faulty_db)) ''7c9e6679-7425-40de-944b-e07fc1f90ae7''
     = Inr (Some example_agent)"
    using getAgent_faulty by (simp add: idle_runner_def)
  have h4: "auditEnabled example_agent" by (simp add: example_agent_def)
  have h5: "task_agent streamed_task = example_agent" by (simp add: streamed_task_def)
  have h6: "remaining streamed_task = []" by (simp add: streamed_task_def)
  from audit_failure_reaches_the_run [OF h1 h2 h3 h4 h5 h6,
      of "\<lambda>r. ''0''" "''2025-06-01T12:00:00.000Z''" "''hi''" "''run-1''"]
  show ?thesis using h3 h4 h5 h6 by (simp add: idle_runner_def faulty_db_def)
qed

lemma finish_run_events:
  "\<exists>more. emitted (finish_run ns now t s) = emitted s @
      [\<lparr>ev_type = Node_completed, ev_runId = task_runId t, timestamp = now,
         nodeId = Some ''node-llm'', ev_data = Completed_data ''llmResponse'' (responseText t)\<rparr>,
       \<lparr>ev_type = Run_completed, ev_runId = task_runId t, timestamp = now, nodeId = None,
         ev_data = Result_data (responseText t)\<rparr>] @ more
    \<and> Llm_chunk \<notin> ev_type ` set more"
  by (auto simp: finish_run_def Let_def run_failed_def audit_if_enabled_def emitToRenderer_def
      split: sum.splits)

lemma finish_run_resolver_calls [simp]: "resolver_calls (finish_run ns now t s) = resolver_calls s"
  by (auto simp: finish_run_def Let_def run_failed_def audit_if_enabled_def emitToRenderer_def
      split: sum.splits)

lemma aborted_stream_no_chunk:
  assumes "aborted s (task_controller t)"
  shows "Llm_chunk \<notin> ev_type ` set (new_events s (stream_step ns now t s))"
proof -
  have "stream_step ns now t s = finish_run ns now t s"
    using assms by (simp add: stream_step_def split: list.splits)
  moreover obtain more where
    "emitted (finish_run ns now t s) = emitted s @
      [\<lparr>ev_type = Node_completed, ev_runId = task_runId t, timestamp = now,
         nodeId = Some ''node-llm'', ev_data = Completed_data ''llmResponse'' (responseText t)\<rparr>,
       \<lparr>ev_type = Run_completed, ev_runId = task_runId t, timestamp = now, nodeId = None,
         ev_data = Result_data (responseText t)\<rparr>] @ more"
    and "Llm_chunk \<notin> ev_type ` set more"
    using finish_run_events by blast
  ultimately show ?thesis by (simp add: new_events_def)
qed

text \<open>
  What \<^verbatim>\<open>runner.stop\<close> does to an active run: it sets the abort signal of the run and
  removes the run from \<^verbatim>\<open>activeRuns\<close>; it calls no confirmation resolver and emits nothing;
  a later \<^verbatim>\<open>runner.confirm\<close> for the run answers \<^verbatim>\<open>Run not found\<close>; and when the streaming
  loop of the run goes on, it emits no further \<^verbatim>\<open>llm-chunk\<close>.
\<close>

lemma RUNNER_STOP_active_run:
  assumes "activeRuns s rid = Some run"
  shows "RUNNER_STOP s rid =
           (ok Stopped, s\<lparr>aborted := (aborted s)(abortController run := True),
                          activeRuns := (activeRuns s)(rid := None)\<rparr>)
       \<and> resolver_calls (snd (RUNNER_STOP s rid)) = resolver_calls s
       \<and> emitted (snd (RUNNER_STOP s rid)) = emitted s
       \<and> RUNNER_CONFIRM (snd (RUNNER_STOP s rid)) rid confirmationId decision
           = (err ''Run not found'', snd (RUNNER_STOP s rid))
       \<and> (task_controller t = abortController run \<longrightarrow>
            Llm_chunk \<notin> ev_type ` set (new_events (snd (RUNNER_STOP s rid))
                                      (stream_step ns now t (snd (RUNNER_STOP s rid)))))"
proof -
  let ?s' = "s\<lparr>aborted := (aborted s)(abortController run := True),
               activeRuns := (activeRuns s)(rid := None)\<rparr>"
  have stop: "RUNNER_STOP s rid = (ok Stopped, ?s')"
    using assms by (simp add: RUNNER_STOP_def)
  have conf: "RUNNER_CONFIRM ?s' rid confirmationId decision = (err ''Run not found'', ?s')"
    by (simp add: RUNNER_CONFIRM_def)
  have chunk: "Llm_chunk \<notin> ev_type ` set (new_events ?s' (stream_step ns now t ?s'))"
    if "task_controller t = abortController run"
    using that by (intro aborted_stream_no_chunk) simp
  from stop conf chunk show ?thesis by simp
qed

text \<open>
  No run ever holds a confirmation: the idle runner holds none, and the three handlers and
  the resumption of a suspended call keep it so. Hence \<^verbatim>\<open>runner.confirm\<close> never finds a
  resolver to call.
\<close>

lemma no_confirmations_map_le:
  assumes "no_confirmations s" "activeRuns s' \<subseteq>\<^sub>m activeRuns s"
  shows "no_confirmations s'"
  unfolding no_confirmations_def
proof (intro allI impI)
  fix rid run
  assume "activeRuns s' rid = Some run"
  with assms(2) have "activeRuns s rid = Some run"
    by (auto simp: map_le_def dom_def)
  with assms(1) show "confirmations run = []"
    by (simp add: no_confirmations_def)
qed

lemma activeRuns_audit:
  "audit_if_enabled ns now agent entry s = Inr s' \<Longrightarrow> activeRuns s' = activeRuns s"
  by (auto simp: audit_if_enabled_def split: if_splits sum.splits)

lemma activeRuns_finish_run:
  "activeRuns (finish_run ns now t s) = (activeRuns s)(task_runId t := None)"
  by (auto simp: finish_run_def Let_def run_failed_def emitToRenderer_def
      dest: activeRuns_audit split: sum.splits)

lemma activeRuns_stream_step:
  "activeRuns (stream_step ns now t s) \<subseteq>\<^sub>m activeRuns s"
  by (auto simp: stream_step_def activeRuns_finish_run emitToRenderer_def Let_def map_le_def
      split: list.splits)

lemma activeRuns_runAgent:
  "activeRuns (runAgent ns now agent userMessage rid aid c s) \<subseteq>\<^sub>m activeRuns s"
proof (cases "aborted s c")
  case True
  then show ?thesis
    by (simp add: runAgent_def Let_def run_failed_def emitToRenderer_def map_le_def)
next
  case False
  let ?s1 = "emitToRenderer \<lparr>ev_type = Node_started, ev_runId = rid, timestamp = now,
                  nodeId = Some ''node-llm'',
                  ev_data = Message_data (''Processing: '' @ userMessage)\<rparr> s"
  have "activeRuns ?s1 = activeRuns s" "aborted ?s1 = aborted s"
    by (simp_all add: emitToRenderer_def)
  with False activeRuns_stream_step [of ns now _ ?s1] show ?thesis
    by (simp add: runAgent_def Let_def)
qed

lemma no_confirmations_idle: "no_confirmations (idle_runner d)"
  by (simp add: no_confirmations_def idle_runner_def)

lemma no_confirmations_START:
  assumes "no_confirmations s"
  shows "no_confirmations (snd (RUNNER_START z ns now s aid userMessage rid))"
proof (cases "getAgent z (db_handle s) aid")
  case (Inl e)
  with assms show ?thesis by (simp add: RUNNER_START_def)
next
  case (Inr found)
  show ?thesis
  proof (cases found)
    case None
    with Inr assms show ?thesis by (simp add: RUNNER_START_def)
  next
    case (Some agent)
    let ?s1 = "s\<lparr>controllers := Suc (controllers s), aborted := (aborted s)(controllers s := False),
        activeRuns := (activeRuns s)(rid \<mapsto> \<lparr>abortController = controllers s, confirmations = []\<rparr>)\<rparr>"
    let ?s2 = "emitToRenderer \<lparr>ev_type = Run_started, ev_runId = rid, timestamp = now,
        nodeId = None, ev_data = Started_data aid (name agent)\<rparr> ?s1"
    let ?entry = "\<lparr>agentId = aid, runId = rid, eventType = ''run-started'', tool = None,
        payload = Some (Serializable (JObj [(''userMessage'', JStr (take 200 userMessage))])),
        outcome = Outcome_success, error = None\<rparr>"
    have n2: "no_confirmations ?s2"
      using assms by (simp add: no_confirmations_def emitToRenderer_def)
    show ?thesis
    proof (cases "audit_if_enabled ns now agent ?entry ?s2")
      case (Inl e)
      with Inr Some n2 show ?thesis by (simp add: RUNNER_START_def Let_def)
    next
      case (Inr s3)
      then have "activeRuns s3 = activeRuns ?s2" by (rule activeRuns_audit)
      then have "no_confirmations s3"
        using n2 by (simp add: no_confirmations_def)
      then have "no_confirmations (runAgent ns now agent userMessage rid aid (controllers s) s3)"
        using activeRuns_runAgent by (rule no_confirmations_map_le)
      with \<open>getAgent z (db_handle s) aid = Inr found\<close> Some Inr show ?thesis
        by (simp add: RUNNER_START_def Let_def)
    qed
  qed
qed

lemma no_confirmations_STOP:
  "no_confirmations s \<Longrightarrow> no_confirmations (snd (RUNNER_STOP s rid))"
  by (auto simp: RUNNER_STOP_def no_confirmations_def split: option.splits if_splits)

lemma RUNNER_CONFIRM_finds_no_resolver:
  assumes "no_confirmations s"
  shows "RUNNER_CONFIRM s rid confirmationId decision = (err ''Run not found'', s)
       \<or> RUNNER_CONFIRM s rid confirmationId decision = (err ''Confirmation not found'', s)"
proof (cases "activeRuns s rid")
  case None
  then show ?thesis by (simp add: RUNNER_CONFIRM_def)
next
  case (Some run)
  with assms have "confirmations run = []" by (simp add: no_confirmations_def)
  with Some show ?thesis by (simp add: RUNNER_CONFIRM_def)
qed

lemma no_confirmations_CONFIRM:
  assumes "no_confirmations s"
  shows "no_confirmations (snd (RUNNER_CONFIRM s rid confirmationId decision))"
  using RUNNER_CONFIRM_finds_no_resolver [OF assms, of rid confirmationId decision] assms by auto

lemma no_confirmations_resume:
  assumes "no_confirmations s"
  shows "no_confirmations (resume ns now k s)"
proof (cases "k < length (tasks s)")
  case True
  let ?s = "s\<lparr>tasks := take k (tasks s) @ drop (Suc k) (tasks s)\<rparr>"
  have "no_confirmations ?s" using assms by (simp add: no_confirmations_def)
  then have "no_confirmations (stream_step ns now (tasks s ! k) ?s)"
    using activeRuns_stream_step by (rule no_confirmations_map_le)
  with True show ?thesis by (simp add: resume_def)
next
  case False
  with assms show ?thesis by (simp add: resume_def)
qed

lemma audit_example_ok:
  assumes "db_handle s = example_db"
  shows "\<exists>d'. audit_if_enabled ns now example_agent entry s = Inr (s\<lparr>db_handle := Some d'\<rparr>)
            \<and> write_fault d' = None"
proof -
  have "auditEnabled example_agent" by (simp add: example_agent_def)
  with assms show ?thesis
    by (simp add: audit_if_enabled_def appendAuditLog_def getDb_def example_db_def empty_db_def)
       (intro exI conjI, rule refl, simp)
qed

lemma started_run_fields:
  "activeRuns started_run = [''run-1'' \<mapsto> \<lparr>abortController = 0, confirmations = []\<rparr>]"
  "aborted started_run = (\<lambda>_. False)"
  "resolver_calls started_run = []"
  "map ev_type (emitted started_run) = [Run_started, Node_started, Llm_chunk]"
  "tasks started_run = [\<lparr>task_agent = example_agent, task_userMessage = ''hi'', task_runId = ''run-1'',
     task_agentId = ''7c9e6679-7425-40de-944b-e07fc1f90ae7'', task_controller = 0,
     responseText = response_text example_agent ''hi'',
     remaining = tl (response_text example_agent ''hi'')\<rparr>]"
  "\<exists>d. db_handle started_run = Some d \<and> write_fault d = None"
proof -
  let ?s2 = "emitToRenderer \<lparr>ev_type = Run_started, ev_runId = ''run-1'',
        timestamp = ''2025-06-01T12:00:00.000Z'', nodeId = None,
        ev_data = Started_data ''7c9e6679-7425-40de-944b-e07fc1f90ae7'' (name example_agent)\<rparr>
      ((idle_runner example_db)\<lparr>controllers := Suc 0, aborted := (\<lambda>_. False)(0 := False),
        activeRuns := [''run-1'' \<mapsto> \<lparr>abortController = 0, confirmations = []\<rparr>]\<rparr>)"
  have "db_handle ?s2 = example_db" by (simp add: emitToRenderer_def idle_runner_def)
  from audit_example_ok [OF this] obtain d' where
    w: "write_fault d' = None" and
    b: "audit_if_enabled (\<lambda>r. ''0'') ''2025-06-01T12:00:00.000Z'' example_agent
          \<lparr>agentId = ''7c9e6679-7425-40de-944b-e07fc1f90ae7'', runId = ''run-1'',
           eventType = ''run-started'', tool = None,
           payload = Some (Serializable (JObj [(''userMessage'', JStr (take 200 ''hi''))])),
           outcome = Outcome_success, error = None\<rparr> ?s2 = Inr (?s2\<lparr>db_handle := Some d'\<rparr>)"
    by blast
  have r: "response_text example_agent ''hi'' = CHR ''['' # tl (response_text example_agent ''hi'')"
    by (simp add: response_text_def)
  have st: "started_run = runAgent (\<lambda>r. ''0'') ''2025-06-01T12:00:00.000Z'' example_agent ''hi'' ''run-1''
      ''7c9e6679-7425-40de-944b-e07fc1f90ae7'' 0 (?s2\<lparr>db_handle := Some d'\<rparr>)"
    using b by (simp add: started_run_def RUNNER_START_def getAgent_example Let_def idle_runner_def)
  have step: "stream_step ns now
       \<lparr>task_agent = example_agent, task_userMessage = ''hi'', task_runId = ''run-1'',
        task_agentId = ''7c9e6679-7425-40de-944b-e07fc1f90ae7'', task_controller = 0,
        responseText = response_text example_agent ''hi'',
        remaining = response_text example_agent ''hi''\<rparr> s
     = (emitToRenderer \<lparr>ev_type = Llm_chunk, ev_runId = ''run-1'', timestamp = now,
          nodeId = Some ''node-llm'', ev_data = Chunk_data ''[''\<rparr> s)
        \<lparr>tasks := tasks s @ [\<lparr>task_agent = example_agent, task_userMessage = ''hi'', task_runId = ''run-1'',
          task_agentId = ''7c9e6679-7425-40de-944b-e07fc1f90ae7'', task_controller = 0,
          responseText = response_text example_agent ''hi'',
          remaining = tl (response_text example_agent ''hi'')\<rparr>]\<rparr>"
    if "\<not> aborted s 0" for ns now s
    using that by (subst stream_step_def, subst (2) r) (simp add: Let_def emitToRenderer_def)
  show "activeRuns started_run = [''run-1'' \<mapsto> \<lparr>abortController = 0, confirmations = []\<rparr>]"
    "aborted started_run = (\<lambda>_. False)"
    "resolver_calls started_run = []"
    "map ev_type (emitted started_run) = [Run_started, Node_started, Llm_chunk]"
    "tasks started_run = [\<lparr>task_agent = example_agent, task_userMessage = ''hi'', task_runId = ''run-1'',
       task_agentId = ''7c9e6679-7425-40de-944b-e07fc1f90ae7'', task_controller = 0,
       responseText = response_text example_agent ''hi'',
       remaining = tl (response_text example_agent ''hi'')\<rparr>]"
    unfolding st runAgent_def Let_def
    by (simp_all add: step emitToRenderer_def idle_runner_def fun_eq_iff)
  show "\<exists>d. db_handle started_run = Some d \<and> write_fault d = None"
    unfolding st runAgent_def Let_def
    using w by (simp add: step emitToRenderer_def idle_runner_def)
qed

lemma finish_run_writable:
  assumes "db_handle s = Some d" "write_fault d = None"
  shows "emitted (finish_run ns now t s) = emitted s @
      [\<lparr>ev_type = Node_completed, ev_runId = task_runId t, timestamp = now,
         nodeId = Some ''node-llm'', ev_data = Completed_data ''llmResponse'' (responseText t)\<rparr>,
       \<lparr>ev_type = Run_completed, ev_runId = task_runId t, timestamp = now, nodeId = None,
         ev_data = Result_data (responseText t)\<rparr>]"
  using assms
  by (simp add: finish_run_def Let_def audit_if_enabled_def appendAuditLog_def getDb_def
      emitToRenderer_def)

lemma tasks_finish_run [simp]: "tasks (finish_run ns now t s) = tasks s"
  by (auto simp: finish_run_def Let_def run_failed_def audit_if_enabled_def emitToRenderer_def
      split: sum.splits)

lemma started_run_reply:
  "fst (RUNNER_START example_zod (\<lambda>r. ''0'') ''2025-06-01T12:00:00.000Z''
     (idle_runner example_db) ''7c9e6679-7425-40de-944b-e07fc1f90ae7'' ''hi'' ''run-1'') = ok (Started ''run-1'')"
proof -
  let ?s2 = "emitToRenderer \<lparr>ev_type = Run_started, ev_runId = ''run-1'',
        timestamp = ''2025-06-01T12:00:00.000Z'', nodeId = None,
        ev_data = Started_data ''7c9e6679-7425-40de-944b-e07fc1f90ae7'' (name example_agent)\<rparr>
      ((idle_runner example_db)\<lparr>controllers := Suc 0, aborted := (\<lambda>_. False)(0 := False),
        activeRuns := [''run-1'' \<mapsto> \<lparr>abortController = 0, confirmations = []\<rparr>]\<rparr>)"
  have "db_handle ?s2 = example_db" by (simp add: emitToRenderer_def idle_runner_def)
  from audit_example_ok [OF this] obtain d' where
    b: "audit_if_enabled (\<lambda>r. ''0'') ''2025-06-01T12:00:00.000Z'' example_agent
          \<lparr>agentId = ''7c9e6679-7425-40de-944b-e07fc1f90ae7'', runId = ''run-1'',
           eventType = ''run-started'', tool = None,
           payload = Some (Serializable (JObj [(''userMessage'', JStr (take 200 ''hi''))])),
           outcome = Outcome_success, error = None\<rparr> ?s2 = Inr (?s2\<lparr>db_handle := Some d'\<rparr>)"
    by blast
  show ?thesis
    using b by (simp add: RUNNER_START_def getAgent_example Let_def idle_runner_def)
qed

text \<open>
  C4. Cancelling a run does not end it with a cancelled or error event. The example agent
  is started with \<^verbatim>\<open>runner.start\<close> and, while its loop waits after the first character,
  stopped with \<^verbatim>\<open>runner.stop\<close>, which answers \<^verbatim>\<open>{stopped: true}\<close>. When the timer fires, the
  loop finds the signal aborted and leaves with \<^verbatim>\<open>break\<close>, and \<^verbatim>\<open>runAgent\<close> goes on to emit
  \<^verbatim>\<open>node-completed\<close> and \<^verbatim>\<open>run-completed\<close>. No call is left suspended, so these are the
  last events of the run: it ends as completed, and no cancelled or error event is emitted.
\<close>

theorem stopped_run_still_completes:
  "fst (RUNNER_START example_zod (\<lambda>r. ''0'') ''2025-06-01T12:00:00.000Z''
     (idle_runner example_db) ''7c9e6679-7425-40de-944b-e07fc1f90ae7'' ''hi'' ''run-1'') = ok (Started ''run-1'')
 \<and> fst (RUNNER_STOP started_run ''run-1'') = ok Stopped
 \<and> map ev_type (emitted stopped_run) = [Run_started, Node_started, Llm_chunk]
 \<and> map ev_type (emitted (resume (\<lambda>r. ''0'') ''2025-06-01T12:00:00.010Z'' 0 stopped_run))
     = [Run_started, Node_started, Llm_chunk, Node_completed, Run_completed]
 \<and> tasks (resume (\<lambda>r. ''0'') ''2025-06-01T12:00:00.010Z'' 0 stopped_run) = []
 \<and> activeRuns (resume (\<lambda>r. ''0'') ''2025-06-01T12:00:00.010Z'' 0 stopped_run) = Map.empty"
proof -
  let ?t = "\<lparr>task_agent = example_agent, task_userMessage = ''hi'', task_runId = ''run-1'',
       task_agentId = ''7c9e6679-7425-40de-944b-e07fc1f90ae7'', task_controller = 0,
       responseText = response_text example_agent ''hi'',
       remaining = tl (response_text example_agent ''hi'')\<rparr>"
  have stop: "RUNNER_STOP started_run ''run-1'' =
      (ok Stopped, started_run\<lparr>aborted := (aborted started_run)(0 := True),
                     activeRuns := (activeRuns started_run)(''run-1'' := None)\<rparr>)"
    by (simp add: RUNNER_STOP_def started_run_fields(1))
  then have s: "stopped_run = started_run\<lparr>aborted := (aborted started_run)(0 := True),
                     activeRuns := (activeRuns started_run)(''run-1'' := None)\<rparr>"
    by (simp add: stopped_run_def)
  have f: "tasks stopped_run = [?t]" "aborted stopped_run 0"
    "map ev_type (emitted stopped_run) = [Run_started, Node_started, Llm_chunk]"
    "activeRuns stopped_run = Map.empty"
    by (simp_all add: s started_run_fields)
  obtain d where d: "db_handle stopped_run = Some d" "write_fault d = None"
    using started_run_fields(6) by (auto simp: s)
  let ?s = "stopped_run\<lparr>tasks := []\<rparr>"
  have r: "resume (\<lambda>r. ''0'') ''2025-06-01T12:00:00.010Z'' 0 stopped_run
      = finish_run (\<lambda>r. ''0'') ''2025-06-01T12:00:00.010Z'' ?t ?s"
    using f(1,2) by (simp add: resume_def stream_step_def split: list.splits)
  have e: "emitted (finish_run (\<lambda>r. ''0'') ''2025-06-01T12:00:00.010Z'' ?t ?s) = emitted ?s @
      [\<lparr>ev_type = Node_completed, ev_runId = task_runId ?t, timestamp = ''2025-06-01T12:00:00.010Z'',
         nodeId = Some ''node-llm'', ev_data = Completed_data ''llmResponse'' (responseText ?t)\<rparr>,
       \<lparr>ev_type = Run_completed, ev_runId = task_runId ?t, timestamp = ''2025-06-01T12:00:00.010Z'',
         nodeId = None, ev_data = Result_data (responseText ?t)\<rparr>]"
    by (rule finish_run_writable [where d = d]) (simp_all add: d)
  have c3: "map ev_type (emitted (resume (\<lambda>r. ''0'') ''2025-06-01T12:00:00.010Z'' 0 stopped_run))
     = [Run_started, Node_started, Llm_chunk, Node_completed, Run_completed]"
    unfolding r e using f(3) by simp
  have c4: "tasks (resume (\<lambda>r. ''0'') ''2025-06-01T12:00:00.010Z'' 0 stopped_run) = []"
    unfolding r by simp
  have c5: "activeRuns (resume (\<lambda>r. ''0'') ''2025-06-01T12:00:00.010Z'' 0 stopped_run) = Map.empty"
    unfolding r activeRuns_finish_run using f(4) by simp
  from started_run_reply stop f(3) c3 c4 c5 show ?thesis by simp
qed

subsection \<open>The policy evaluator\<close>

text \<open>
  C1. When the four sub-policies of a permission model are all disabled, every request of
  every kind evaluates to \<^verbatim>\<open>Deny("tool disabled")\<close>, whatever the matchers and the request
  counter are.
\<close>

theorem all_disabled_denies:
  assumes "\<not> filesystem_enabled (filesystem policy)" and "\<not> http_enabled (http policy)"
    and "\<not> shell_enabled (shell policy)" and "\<not> codeExec_enabled (codeExec policy)"
  shows "evaluate m requests request policy = Deny ''tool disabled''"
  using assms
  by (cases request)
     (simp_all add: evaluate_filesystem_def evaluate_http_def evaluate_shell_def evaluate_codeExec_def)

theorem all_disabled_denies_witness:
  "\<not> filesystem_enabled (filesystem DEFAULT_TOOL_PERMISSIONS)
 \<and> \<not> http_enabled (http DEFAULT_TOOL_PERMISSIONS)
 \<and> \<not> shell_enabled (shell DEFAULT_TOOL_PERMISSIONS)
 \<and> \<not> codeExec_enabled (codeExec DEFAULT_TOOL_PERMISSIONS)
 \<and> evaluate literal_matchers 0 (ShellRequest ''git status'') DEFAULT_TOOL_PERMISSIONS = Deny ''tool disabled''
 \<and> evaluate literal_matchers 0 (HttpRequest ''api.example.com'' GET) DEFAULT_TOOL_PERMISSIONS = Deny ''tool disabled''
 \<and> evaluate literal_matchers 0 (FilesystemRequest ReadFile ''/tmp/x'' 10) DEFAULT_TOOL_PERMISSIONS = Deny ''tool disabled''
 \<and> evaluate literal_matchers 0 CodeExecRequest DEFAULT_TOOL_PERMISSIONS = Deny ''tool disabled''"
proof -
  have d: "\<not> filesystem_enabled (filesystem DEFAULT_TOOL_PERMISSIONS)"
    "\<not> http_enabled (http DEFAULT_TOOL_PERMISSIONS)"
    "\<not> shell_enabled (shell DEFAULT_TOOL_PERMISSIONS)"
    "\<not> codeExec_enabled (codeExec DEFAULT_TOOL_PERMISSIONS)"
    by (simp_all add: DEFAULT_TOOL_PERMISSIONS_def)
  from all_disabled_denies [OF d] d show ?thesis by blast
qed

text \<open>The flag decides alone: an enabled sub-policy with an allowed command asks for confirmation.\<close>

lemma enabled_shell_asks:
  "evaluate literal_matchers 0 (ShellRequest ''git status'')
     (DEFAULT_TOOL_PERMISSIONS\<lparr>shell := (shell DEFAULT_TOOL_PERMISSIONS)\<lparr>shell_enabled := True,
        allowedCommands := [''git'']\<rparr>\<rparr>)
   = RequireConfirmation ''git status''"
  by (simp add: evaluate_shell_def DEFAULT_TOOL_PERMISSIONS_def literal_matchers_def
      default_blockedPatterns_def)

end
